theory Spec2Isabelle
  imports Complex_Main
begin

section \<open>JavaScript numbers\<close>

text \<open>
  Every number of the program is a JavaScript \<^verbatim>\<open>number\<close>. The model keeps the finite
  values as reals and adds the three non-finite values, so that every \<^verbatim>\<open>isFinite\<close> guard
  and every comparison against \<^verbatim>\<open>NaN\<close> of the source is a branch of the model. Rounding,
  overflow of finite results and the sign of zero are not modelled: a finite operation
  returns the exact real result, and a division by zero takes the zero as \<^verbatim>\<open>+0\<close>.
\<close>

datatype num = Fin real | PInf | NInf | NaN

fun isFinite :: "num \<Rightarrow> bool" where
  "isFinite (Fin _) = True"
| "isFinite _ = False"

instantiation num :: "{plus, minus, uminus, times, inverse, ord}"
begin

fun uminus_num :: "num \<Rightarrow> num" where
  "uminus_num (Fin a) = Fin (- a)"
| "uminus_num PInf = NInf"
| "uminus_num NInf = PInf"
| "uminus_num NaN = NaN"

fun plus_num :: "num \<Rightarrow> num \<Rightarrow> num" where
  "plus_num (Fin a) (Fin b) = Fin (a + b)"
| "plus_num NaN _ = NaN"
| "plus_num _ NaN = NaN"
| "plus_num PInf NInf = NaN"
| "plus_num NInf PInf = NaN"
| "plus_num PInf _ = PInf"
| "plus_num _ PInf = PInf"
| "plus_num NInf _ = NInf"
| "plus_num _ NInf = NInf"

definition minus_num :: "num \<Rightarrow> num \<Rightarrow> num" where
  "minus_num a b = a + (- b)"

fun times_num :: "num \<Rightarrow> num \<Rightarrow> num" where
  "times_num (Fin a) (Fin b) = Fin (a * b)"
| "times_num NaN _ = NaN"
| "times_num _ NaN = NaN"
| "times_num PInf (Fin b) = (if b = 0 then NaN else if 0 < b then PInf else NInf)"
| "times_num NInf (Fin b) = (if b = 0 then NaN else if 0 < b then NInf else PInf)"
| "times_num (Fin a) PInf = (if a = 0 then NaN else if 0 < a then PInf else NInf)"
| "times_num (Fin a) NInf = (if a = 0 then NaN else if 0 < a then NInf else PInf)"
| "times_num PInf PInf = PInf"
| "times_num PInf NInf = NInf"
| "times_num NInf PInf = NInf"
| "times_num NInf NInf = PInf"

fun divide_num :: "num \<Rightarrow> num \<Rightarrow> num" where
  "divide_num (Fin a) (Fin b) =
     (if b = 0 then (if a = 0 then NaN else if 0 < a then PInf else NInf) else Fin (a / b))"
| "divide_num NaN _ = NaN"
| "divide_num _ NaN = NaN"
| "divide_num (Fin a) PInf = Fin 0"
| "divide_num (Fin a) NInf = Fin 0"
| "divide_num PInf (Fin b) = (if 0 \<le> b then PInf else NInf)"
| "divide_num NInf (Fin b) = (if 0 \<le> b then NInf else PInf)"
| "divide_num PInf PInf = NaN"
| "divide_num PInf NInf = NaN"
| "divide_num NInf PInf = NaN"
| "divide_num NInf NInf = NaN"

definition inverse_num :: "num \<Rightarrow> num" where
  "inverse_num a = divide (Fin 1) a"

fun less_num :: "num \<Rightarrow> num \<Rightarrow> bool" where
  "less_num (Fin a) (Fin b) = (a < b)"
| "less_num NaN _ = False"
| "less_num _ NaN = False"
| "less_num _ NInf = False"
| "less_num PInf _ = False"
| "less_num NInf _ = True"
| "less_num _ PInf = True"

fun less_eq_num :: "num \<Rightarrow> num \<Rightarrow> bool" where
  "less_eq_num (Fin a) (Fin b) = (a \<le> b)"
| "less_eq_num NaN _ = False"
| "less_eq_num _ NaN = False"
| "less_eq_num NInf _ = True"
| "less_eq_num _ PInf = True"
| "less_eq_num _ NInf = False"
| "less_eq_num PInf _ = False"

instance ..

end

text \<open>\<^verbatim>\<open>Math.sqrt\<close>, \<^verbatim>\<open>Math.min\<close> and \<^verbatim>\<open>Math.max\<close> of two arguments.\<close>

fun Math_sqrt :: "num \<Rightarrow> num" where
  "Math_sqrt (Fin a) = (if a < 0 then NaN else Fin (sqrt a))"
| "Math_sqrt PInf = PInf"
| "Math_sqrt NInf = NaN"
| "Math_sqrt NaN = NaN"

fun Math_min :: "num \<Rightarrow> num \<Rightarrow> num" where
  "Math_min NaN _ = NaN"
| "Math_min _ NaN = NaN"
| "Math_min a b = (if a \<le> b then a else b)"

fun Math_max :: "num \<Rightarrow> num \<Rightarrow> num" where
  "Math_max NaN _ = NaN"
| "Math_max _ NaN = NaN"
| "Math_max a b = (if a \<le> b then b else a)"

text \<open>
  \<^verbatim>\<open>Math.atan2\<close>, \<^verbatim>\<open>Math.cos\<close> and \<^verbatim>\<open>Math.sin\<close>, with the values ECMAScript gives
  them at the non-finite arguments.
\<close>

definition atan2 :: "real \<Rightarrow> real \<Rightarrow> real" where
  "atan2 b a =
     (if 0 < a then arctan (b / a)
      else if a < 0 then (if 0 \<le> b then arctan (b / a) + pi else arctan (b / a) - pi)
      else if 0 < b then pi / 2
      else if b < 0 then - pi / 2
      else 0)"

fun Math_atan2 :: "num \<Rightarrow> num \<Rightarrow> num" where
  "Math_atan2 (Fin b) (Fin a) = Fin (atan2 b a)"
| "Math_atan2 NaN _ = NaN"
| "Math_atan2 _ NaN = NaN"
| "Math_atan2 PInf PInf = Fin (pi / 4)"
| "Math_atan2 PInf NInf = Fin (3 * pi / 4)"
| "Math_atan2 PInf (Fin a) = Fin (pi / 2)"
| "Math_atan2 NInf PInf = Fin (- pi / 4)"
| "Math_atan2 NInf NInf = Fin (- 3 * pi / 4)"
| "Math_atan2 NInf (Fin a) = Fin (- pi / 2)"
| "Math_atan2 (Fin b) PInf = Fin 0"
| "Math_atan2 (Fin b) NInf = (if 0 \<le> b then Fin pi else Fin (- pi))"

fun Math_cos :: "num \<Rightarrow> num" where
  "Math_cos (Fin a) = Fin (cos a)"
| "Math_cos _ = NaN"

fun Math_sin :: "num \<Rightarrow> num" where
  "Math_sin (Fin a) = Fin (sin a)"
| "Math_sin _ = NaN"

section \<open>Utils: vector math\<close>

record Vec2 =
  x :: num
  y :: num

definition vec2 :: "num \<Rightarrow> num \<Rightarrow> Vec2" where
  "vec2 a b = \<lparr>x = a, y = b\<rparr>"

definition vec2Zero :: Vec2 where
  "vec2Zero = \<lparr>x = Fin 0, y = Fin 0\<rparr>"


definition vec2Sub :: "Vec2 \<Rightarrow> Vec2 \<Rightarrow> Vec2" where
  "vec2Sub a b = \<lparr>x = x a - x b, y = y a - y b\<rparr>"

definition vec2Scale :: "Vec2 \<Rightarrow> num \<Rightarrow> Vec2" where
  "vec2Scale v s = \<lparr>x = x v * s, y = y v * s\<rparr>"

definition vec2Length :: "Vec2 \<Rightarrow> num" where
  "vec2Length v = Math_sqrt (x v * x v + y v * y v)"

definition vec2Normalize :: "Vec2 \<Rightarrow> Vec2" where
  "vec2Normalize v =
     (let len = vec2Length v
      in if len < Fin 0.0001 then vec2Zero else vec2Scale v (Fin 1 / len))"

definition vec2Dot :: "Vec2 \<Rightarrow> Vec2 \<Rightarrow> num" where
  "vec2Dot a b = x a * x b + y a * y b"

definition vec2Distance :: "Vec2 \<Rightarrow> Vec2 \<Rightarrow> num" where
  "vec2Distance a b = vec2Length (vec2Sub a b)"

section \<open>Entities\<close>

text \<open>The fields of \<^verbatim>\<open>ENTITY_CONSTANTS\<close>.\<close>

definition PLAYER_RADIUS :: num where "PLAYER_RADIUS = Fin 18"
definition PLAYER_MASS :: num where "PLAYER_MASS = Fin 2.2"
definition PLAYER_RESTITUTION :: num where "PLAYER_RESTITUTION = Fin 0.35"
definition PLAYER_MAX_SPEED :: num where "PLAYER_MAX_SPEED = Fin 180"
definition PLAYER_ACCELERATION :: num where "PLAYER_ACCELERATION = Fin 500"
definition PLAYER_DAMPING :: num where "PLAYER_DAMPING = Fin 0.991"
definition KICK_RADIUS :: num where "KICK_RADIUS = Fin 35"
definition KICK_FORCE :: num where "KICK_FORCE = Fin 320"
definition BALL_RADIUS :: num where "BALL_RADIUS = Fin 10"
definition BALL_MASS :: num where "BALL_MASS = Fin 0.9"
definition BALL_RESTITUTION :: num where "BALL_RESTITUTION = Fin 0.88"
definition BALL_MAX_SPEED :: num where "BALL_MAX_SPEED = Fin 350"
definition BALL_DAMPING :: num where "BALL_DAMPING = Fin 0.992"
definition ARENA_WIDTH :: num where "ARENA_WIDTH = Fin 900"
definition ARENA_HEIGHT :: num where "ARENA_HEIGHT = Fin 540"
definition GOAL_HEIGHT :: num where "GOAL_HEIGHT = Fin 160"
definition WALL_THICKNESS :: num where "WALL_THICKNESS = Fin 20"
definition COLLISION_SLOP :: num where "COLLISION_SLOP = Fin 0.1"
definition POSITION_CORRECTION_PERCENT :: num where "POSITION_CORRECTION_PERCENT = Fin 0.8"

datatype EntityType = EntityType_Player | EntityType_Ball

text \<open>
  The class \<^verbatim>\<open>Entity\<close> and its two subclasses, as a record and two extensions of it: a
  function on \<open>'a Entity_scheme\<close> is a method of the base class, inherited by both.
\<close>

record Entity =
  type :: EntityType
  position :: Vec2
  velocity :: Vec2
  radius :: num
  mass :: num
  restitution :: num
  maxSpeed :: num
  damping :: num

record Player = Entity +
  isHuman :: bool
  inputAcceleration :: Vec2

record Ball = Entity +
  isFrozen :: bool
  freezeTime :: num

definition invMass :: "'a Entity_scheme \<Rightarrow> num" where
  "invMass e = (if mass e > Fin 0 then Fin 1 / mass e else Fin 0)"

definition Entity_update :: "'a Entity_scheme \<Rightarrow> num \<Rightarrow> 'a Entity_scheme" where
  "Entity_update e dt =
     (let e1 = e\<lparr>velocity := \<lparr>x = x (velocity e) * damping e, y = y (velocity e) * damping e\<rparr>\<rparr>;
          speed = Math_sqrt (x (velocity e1) * x (velocity e1) + y (velocity e1) * y (velocity e1));
          e2 = (if speed > maxSpeed e1
                then (let scale = maxSpeed e1 / speed
                      in e1\<lparr>velocity := \<lparr>x = x (velocity e1) * scale, y = y (velocity e1) * scale\<rparr>\<rparr>)
                else e1)
      in e2\<lparr>position := \<lparr>x = x (position e2) + x (velocity e2) * dt,
                          y = y (position e2) + y (velocity e2) * dt\<rparr>\<rparr>)"

definition applyImpulse :: "'a Entity_scheme \<Rightarrow> Vec2 \<Rightarrow> 'a Entity_scheme" where
  "applyImpulse e impulse =
     e\<lparr>velocity := \<lparr>x = x (velocity e) + x impulse * invMass e,
                     y = y (velocity e) + y impulse * invMass e\<rparr>\<rparr>"

definition Player_new :: "Vec2 \<Rightarrow> bool \<Rightarrow> Player" where
  "Player_new pos human =
     \<lparr>type = EntityType_Player, position = vec2 (x pos) (y pos), velocity = vec2Zero,
      radius = PLAYER_RADIUS, mass = PLAYER_MASS, restitution = PLAYER_RESTITUTION,
      maxSpeed = PLAYER_MAX_SPEED, damping = PLAYER_DAMPING,
      isHuman = human, inputAcceleration = vec2Zero\<rparr>"

definition Player_update :: "'a Player_scheme \<Rightarrow> num \<Rightarrow> num \<Rightarrow> 'a Player_scheme" where
  "Player_update p dt accelerationMultiplier =
     (let accel = PLAYER_ACCELERATION * accelerationMultiplier;
          p1 = p\<lparr>velocity := \<lparr>x = x (velocity p) + x (inputAcceleration p) * accel * dt,
                               y = y (velocity p) + y (inputAcceleration p) * accel * dt\<rparr>\<rparr>
      in Entity_update p1 dt)"

definition Ball_new :: "Vec2 \<Rightarrow> Ball" where
  "Ball_new pos =
     \<lparr>type = EntityType_Ball, position = vec2 (x pos) (y pos), velocity = vec2Zero,
      radius = BALL_RADIUS, mass = BALL_MASS, restitution = BALL_RESTITUTION,
      maxSpeed = BALL_MAX_SPEED, damping = BALL_DAMPING,
      isFrozen = False, freezeTime = Fin 0\<rparr>"

definition Ball_update :: "'a Ball_scheme \<Rightarrow> num \<Rightarrow> 'a Ball_scheme" where
  "Ball_update b dt =
     (if isFrozen b
      then (let b1 = b\<lparr>freezeTime := freezeTime b - dt\<rparr>
            in if freezeTime b1 \<le> Fin 0
               then Entity_update (b1\<lparr>isFrozen := False\<rparr>) dt
               else b1)
      else Entity_update b dt)"

definition freeze :: "'a Ball_scheme \<Rightarrow> num \<Rightarrow> 'a Ball_scheme" where
  "freeze b duration = b\<lparr>isFrozen := True, freezeTime := duration, velocity := vec2Zero\<rparr>"

section \<open>Physics\<close>

text \<open>
  The two interfaces of the module. \<^verbatim>\<open>WallCollision\<close> comes first so that the plain field
  names \<open>normal\<close> and \<open>penetration\<close> are those of \<^verbatim>\<open>Collision\<close>.
\<close>

record 'a WallCollision =
  entity :: "'a Entity_scheme"
  normal :: Vec2
  penetration :: num

record ('a, 'b) Collision =
  entityA :: "'a Entity_scheme"
  entityB :: "'b Entity_scheme"
  normal :: Vec2
  penetration :: num

definition detectCircleCollision ::
  "'a Entity_scheme \<Rightarrow> 'b Entity_scheme \<Rightarrow> ('a, 'b) Collision option" where
  "detectCircleCollision a b =
     (let dx = x (position b) - x (position a);
          dy = y (position b) - y (position a);
          distSq = dx * dx + dy * dy;
          minDist = radius a + radius b
      in if distSq \<ge> minDist * minDist then None
         else (let dist = Math_sqrt distSq;
                   pen = minDist - dist;
                   n = (if dist > Fin 0.0001 then vec2Normalize (vec2 dx dy) else vec2 (Fin 1) (Fin 0))
               in Some \<lparr>entityA = a, entityB = b, normal = n, penetration = pen\<rparr>))"

text \<open>
  \<^verbatim>\<open>resolveCircleCollision\<close> mutates the two entities of the collision; the model returns
  them. The parameter \<^verbatim>\<open>dt\<close> is unused in the source.
\<close>

definition resolveCircleCollision ::
  "('a, 'b) Collision \<Rightarrow> num \<Rightarrow> 'a Entity_scheme \<times> 'b Entity_scheme" where
  "resolveCircleCollision collision dt =
     (let a = entityA collision; b = entityB collision;
          n = normal collision; pen = penetration collision;
          (a1, b1) =
            (if pen > COLLISION_SLOP
             then (let correction = POSITION_CORRECTION_PERCENT * pen;
                       totalInvMass = invMass a + invMass b
                   in if totalInvMass > Fin 0
                      then (let correctionA = correction * (invMass a / totalInvMass);
                                correctionB = correction * (invMass b / totalInvMass)
                            in (a\<lparr>position := \<lparr>x = x (position a) - x n * correctionA,
                                                 y = y (position a) - y n * correctionA\<rparr>\<rparr>,
                                b\<lparr>position := \<lparr>x = x (position b) + x n * correctionB,
                                                 y = y (position b) + y n * correctionB\<rparr>\<rparr>))
                      else (a, b))
             else (a, b));
          relativeVel = vec2Sub (velocity b1) (velocity a1);
          velAlongNormal = vec2Dot relativeVel n
      in if velAlongNormal > Fin 0 then (a1, b1)
         else (let e = Math_min (restitution a1) (restitution b1);
                   invMassSum = invMass a1 + invMass b1
               in if invMassSum = Fin 0 then (a1, b1)
                  else (let impulseScalar = - (Fin 1 + e) * velAlongNormal / invMassSum;
                            impulse = vec2Scale n impulseScalar
                        in (applyImpulse a1 (vec2Scale impulse (Fin (- 1))), applyImpulse b1 impulse))))"

datatype Side = left | right

text \<open>\<^verbatim>\<open>checkGoal\<close> returns \<^verbatim>\<open>'left' | 'right' | null\<close>: the side that scored.\<close>

definition checkGoal :: "'a Ball_scheme \<Rightarrow> Side option" where
  "checkGoal b =
     (let centerY = ARENA_HEIGHT / Fin 2;
          goalTop = centerY - GOAL_HEIGHT / Fin 2;
          goalBottom = centerY + GOAL_HEIGHT / Fin 2
      in if x (position b) - radius b < Fin 0 \<and> y (position b) \<ge> goalTop \<and> y (position b) \<le> goalBottom
         then Some right
         else if x (position b) + radius b > ARENA_WIDTH \<and> y (position b) \<ge> goalTop
                 \<and> y (position b) \<le> goalBottom
         then Some left
         else None)"


definition detectWallCollision :: "'a Entity_scheme \<Rightarrow> 'a WallCollision option" where
  "detectWallCollision e =
     (let centerY = ARENA_HEIGHT / Fin 2;
          goalTop = centerY - GOAL_HEIGHT / Fin 2;
          goalBottom = centerY + GOAL_HEIGHT / Fin 2;
          isPlayer = (type e = EntityType_Player);
          np0 = (None :: Vec2 option, Fin 0);
          np1 = (if x (position e) - radius e < WALL_THICKNESS
                 then (if isPlayer \<or> y (position e) < goalTop \<or> y (position e) > goalBottom
                       then (Some (vec2 (Fin 1) (Fin 0)), WALL_THICKNESS - (x (position e) - radius e))
                       else np0)
                 else np0);
          np2 = (if x (position e) + radius e > ARENA_WIDTH - WALL_THICKNESS
                 then (if isPlayer \<or> y (position e) < goalTop \<or> y (position e) > goalBottom
                       then (Some (vec2 (Fin (- 1)) (Fin 0)),
                             (x (position e) + radius e) - (ARENA_WIDTH - WALL_THICKNESS))
                       else np1)
                 else np1);
          np3 = (if y (position e) - radius e < WALL_THICKNESS
                 then (Some (vec2 (Fin 0) (Fin 1)), WALL_THICKNESS - (y (position e) - radius e))
                 else np2);
          np4 = (if y (position e) + radius e > ARENA_HEIGHT - WALL_THICKNESS
                 then (Some (vec2 (Fin 0) (Fin (- 1))),
                       (y (position e) + radius e) - (ARENA_HEIGHT - WALL_THICKNESS))
                 else np3)
      in case np4 of
           (Some n, pen) \<Rightarrow>
             if pen > Fin 0
             then Some \<lparr>entity = e, WallCollision.normal = n, WallCollision.penetration = pen\<rparr>
             else None
         | (None, pen) \<Rightarrow> None)"

definition resolveWallCollision :: "'a WallCollision \<Rightarrow> num \<Rightarrow> 'a Entity_scheme" where
  "resolveWallCollision collision dt =
     (let e = entity collision; n = WallCollision.normal collision;
          pen = WallCollision.penetration collision;
          e1 = (if pen > COLLISION_SLOP
                then (let correction = POSITION_CORRECTION_PERCENT * pen
                      in e\<lparr>position := \<lparr>x = x (position e) + x n * correction,
                                          y = y (position e) + y n * correction\<rparr>\<rparr>)
                else e);
          velAlongNormal = vec2Dot (velocity e1) n
      in if velAlongNormal < Fin 0
         then (let reflectedVel = vec2Scale n (Fin (- 2) * velAlongNormal * restitution e1)
               in e1\<lparr>velocity := \<lparr>x = x (velocity e1) + x reflectedVel,
                                    y = y (velocity e1) + y reflectedVel\<rparr>\<rparr>)
         else e1)"

section \<open>World\<close>

datatype GameMode = OneVsOne | TwoVsTwo | ThreeVsThree

text \<open>
  Players are objects shared by reference between \<^verbatim>\<open>humanPlayer\<close> and the two rosters, and
  compared by reference (\<^verbatim>\<open>p === player\<close>): the world holds a store of \<^verbatim>\<open>Player\<close>
  objects, and the rosters and \<^verbatim>\<open>humanPlayer\<close> hold references into it. A reference always
  denotes an object (no \<^verbatim>\<open>null\<close>), so the source's truthiness guards on objects are true.
  The ball is owned by the world alone. \<^verbatim>\<open>score\<close> is the pair of fields
  \<open>score_human\<close>, \<open>score_bot\<close>.
\<close>

type_synonym ref = nat

record World =
  players :: "ref \<Rightarrow> Player"
  humanPlayer :: ref
  humanTeam :: "ref list"
  botTeam :: "ref list"
  ball :: Ball
  score_human :: num
  score_bot :: num
  kickoffFreezeTime :: num
  isPaused :: bool
  gameMode :: GameMode

text \<open>
  The constructor allocates the players in the order of its \<^verbatim>\<open>new Player\<close> expressions:
  reference 0 is the human player. References that are not allocated hold a player that no
  roster names.
\<close>

definition World_new :: "GameMode \<Rightarrow> World" where
  "World_new gm =
     (let centerX = ARENA_WIDTH / Fin 2;
          centerY = ARENA_HEIGHT / Fin 2;
          store0 = (\<lambda>r. Player_new vec2Zero False);
          store1 = store0(0 := Player_new (vec2 (Fin 250) centerY) True);
          (store2, hTeam, bTeam) =
            (case gm of
               OneVsOne \<Rightarrow>
                 (store1(1 := Player_new (vec2 (Fin 650) centerY) False), [0], [1])
             | TwoVsTwo \<Rightarrow>
                 (store1(1 := Player_new (vec2 (Fin 300) (centerY - Fin 80)) True,
                         2 := Player_new (vec2 (Fin 650) centerY) False,
                         3 := Player_new (vec2 (Fin 600) (centerY - Fin 80)) False),
                  [0, 1], [2, 3])
             | ThreeVsThree \<Rightarrow>
                 (store1(1 := Player_new (vec2 (Fin 300) (centerY - Fin 100)) True,
                         2 := Player_new (vec2 (Fin 300) (centerY + Fin 100)) True,
                         3 := Player_new (vec2 (Fin 650) centerY) False,
                         4 := Player_new (vec2 (Fin 600) (centerY - Fin 100)) False,
                         5 := Player_new (vec2 (Fin 600) (centerY + Fin 100)) False),
                  [0, 1, 2], [3, 4, 5]))
      in \<lparr>players = store2, humanPlayer = 0, humanTeam = hTeam, botTeam = bTeam,
          ball = Ball_new (vec2 centerX centerY),
          score_human = Fin 0, score_bot = Fin 0, kickoffFreezeTime = Fin 0,
          isPaused = False, gameMode = gm\<rparr>)"

definition getAllPlayers :: "World \<Rightarrow> ref list" where
  "getAllPlayers w = humanTeam w @ botTeam w"

text \<open>Assignments to the position and velocity of the player object behind a reference.\<close>

definition setKickoff :: "World \<Rightarrow> ref \<Rightarrow> Vec2 \<Rightarrow> World" where
  "setKickoff w r pos =
     w\<lparr>players := (players w)(r := (players w r)\<lparr>position := pos, velocity := vec2 (Fin 0) (Fin 0)\<rparr>)\<rparr>"

text \<open>
  \<^verbatim>\<open>resetKickoff\<close>, with its two roster blocks (\<^verbatim>\<open>// Reset human team\<close>,
  \<^verbatim>\<open>// Reset bot team\<close>) as functions of their own; \<open>centerY\<close> is the local constant of
  the method.
\<close>

definition resetHumanTeam :: "num \<Rightarrow> World \<Rightarrow> World" where
  "resetHumanTeam centerY w =
     (if gameMode w = TwoVsTwo \<and> length (humanTeam w) > 1
      then setKickoff w (humanTeam w ! 1) (vec2 (Fin 300) (centerY - Fin 80))
      else if gameMode w = ThreeVsThree
      then (let w1 = (if length (humanTeam w) > 1
                      then setKickoff w (humanTeam w ! 1) (vec2 (Fin 300) (centerY - Fin 100))
                      else w)
            in if length (humanTeam w1) > 2
               then setKickoff w1 (humanTeam w1 ! 2) (vec2 (Fin 300) (centerY + Fin 100))
               else w1)
      else w)"

definition resetBotTeam :: "num \<Rightarrow> World \<Rightarrow> World" where
  "resetBotTeam centerY w =
     (if gameMode w = OneVsOne \<and> length (botTeam w) > 0
      then setKickoff w (botTeam w ! 0) (vec2 (Fin 650) centerY)
      else if gameMode w = TwoVsTwo
      then (let w1 = (if length (botTeam w) > 0
                      then setKickoff w (botTeam w ! 0) (vec2 (Fin 650) centerY)
                      else w)
            in if length (botTeam w1) > 1
               then setKickoff w1 (botTeam w1 ! 1) (vec2 (Fin 600) (centerY - Fin 80))
               else w1)
      else if gameMode w = ThreeVsThree
      then (let w1 = (if length (botTeam w) > 0
                      then setKickoff w (botTeam w ! 0) (vec2 (Fin 650) centerY)
                      else w);
                w2 = (if length (botTeam w1) > 1
                      then setKickoff w1 (botTeam w1 ! 1) (vec2 (Fin 600) (centerY - Fin 100))
                      else w1)
            in if length (botTeam w2) > 2
               then setKickoff w2 (botTeam w2 ! 2) (vec2 (Fin 600) (centerY + Fin 100))
               else w2)
      else w)"

definition resetKickoff :: "World \<Rightarrow> World" where
  "resetKickoff w =
     (let centerX = ARENA_WIDTH / Fin 2;
          centerY = ARENA_HEIGHT / Fin 2;
          w1 = setKickoff w (humanPlayer w) (vec2 (Fin 250) centerY);
          w2 = resetHumanTeam centerY w1;
          w3 = resetBotTeam centerY w2;
          w4 = w3\<lparr>ball := freeze ((ball w3)\<lparr>position := vec2 centerX centerY,
                                                velocity := vec2 (Fin 0) (Fin 0)\<rparr>) (Fin 1)\<rparr>
      in w4\<lparr>kickoffFreezeTime := Fin 1\<rparr>)"

definition reset :: "World \<Rightarrow> World" where
  "reset w = resetKickoff (w\<lparr>score_human := Fin 0, score_bot := Fin 0\<rparr>)"

text \<open>
  The entities of a collision pass are the players of both rosters and the ball, by
  reference. A pair of the pass is two different elements of that array; the rosters hold
  each player once, so the two entities of a pair are different objects, and the model
  writes the two resolved entities back one after the other.
\<close>

datatype EntityRef = PlayerRef ref | BallRef

fun collidePair :: "num \<Rightarrow> EntityRef \<Rightarrow> EntityRef \<Rightarrow> World \<Rightarrow> World" where
  "collidePair dt (PlayerRef i) (PlayerRef j) w =
     (case detectCircleCollision (players w i) (players w j) of
        None \<Rightarrow> w
      | Some collision \<Rightarrow>
          (let (a, b) = resolveCircleCollision collision dt
           in w\<lparr>players := (players w)(i := a, j := b)\<rparr>))"
| "collidePair dt (PlayerRef i) BallRef w =
     (case detectCircleCollision (players w i) (ball w) of
        None \<Rightarrow> w
      | Some collision \<Rightarrow>
          (let (a, b) = resolveCircleCollision collision dt
           in w\<lparr>players := (players w)(i := a), ball := b\<rparr>))"
| "collidePair dt BallRef (PlayerRef j) w =
     (case detectCircleCollision (ball w) (players w j) of
        None \<Rightarrow> w
      | Some collision \<Rightarrow>
          (let (a, b) = resolveCircleCollision collision dt
           in w\<lparr>ball := a, players := (players w)(j := b)\<rparr>))"
| "collidePair dt BallRef BallRef w =
     (case detectCircleCollision (ball w) (ball w) of
        None \<Rightarrow> w
      | Some collision \<Rightarrow>
          (let (a, b) = resolveCircleCollision collision dt
           in w\<lparr>ball := b\<rparr>))"

text \<open>The nested loops over \<^verbatim>\<open>i < j\<close>: the head against every later entity, then the rest.\<close>

fun resolvePairs :: "num \<Rightarrow> EntityRef list \<Rightarrow> World \<Rightarrow> World" where
  "resolvePairs dt [] w = w"
| "resolvePairs dt (e # es) w = resolvePairs dt es (fold (collidePair dt e) es w)"

fun collideWall :: "num \<Rightarrow> EntityRef \<Rightarrow> World \<Rightarrow> World" where
  "collideWall dt (PlayerRef i) w =
     (case detectWallCollision (players w i) of
        None \<Rightarrow> w
      | Some wallCollision \<Rightarrow> w\<lparr>players := (players w)(i := resolveWallCollision wallCollision dt)\<rparr>)"
| "collideWall dt BallRef w =
     (case detectWallCollision (ball w) of
        None \<Rightarrow> w
      | Some wallCollision \<Rightarrow> w\<lparr>ball := resolveWallCollision wallCollision dt\<rparr>)"

definition resolveCollisions :: "World \<Rightarrow> num \<Rightarrow> World" where
  "resolveCollisions w dt =
     (let allPlayers = getAllPlayers w;
          entities = map PlayerRef allPlayers @ [BallRef];
          w1 = resolvePairs dt entities w
      in fold (collideWall dt) entities w1)"

definition updatePlayer :: "num \<Rightarrow> num \<Rightarrow> ref \<Rightarrow> World \<Rightarrow> World" where
  "updatePlayer dt accelerationMultiplier r w =
     w\<lparr>players := (players w)(r := Player_update (players w r) dt accelerationMultiplier)\<rparr>"

text \<open>
  The first half of \<^verbatim>\<open>World.update\<close>, up to the goal check: the kickoff timer, then the
  update of every entity.
\<close>

definition updateEntities :: "World \<Rightarrow> num \<Rightarrow> num \<Rightarrow> World" where
  "updateEntities w dt botAccelerationMultiplier =
     (let w1 = (if kickoffFreezeTime w > Fin 0
                then (let w0 = w\<lparr>kickoffFreezeTime := kickoffFreezeTime w - dt\<rparr>
                      in if kickoffFreezeTime w0 \<le> Fin 0 \<and> isFrozen (ball w0)
                         then w0\<lparr>ball := (ball w0)\<lparr>isFrozen := False\<rparr>\<rparr>
                         else w0)
                else w);
          w2 = updatePlayer dt (Fin 1) (humanPlayer w1) w1;
          w3 = fold (\<lambda>player wa. if player \<noteq> humanPlayer wa
                                   then updatePlayer dt (Fin 1) player wa else wa)
                 (humanTeam w2) w2;
          w4 = fold (\<lambda>player wa. updatePlayer dt botAccelerationMultiplier player wa) (botTeam w3) w3
      in w4\<lparr>ball := Ball_update (ball w4) dt\<rparr>)"

definition World_update :: "World \<Rightarrow> num \<Rightarrow> num \<Rightarrow> Side option \<times> World" where
  "World_update w dt botAccelerationMultiplier =
     (if isPaused w then (None, w)
      else (let w5 = updateEntities w dt botAccelerationMultiplier
            in case checkGoal (ball w5) of
                 Some goal \<Rightarrow>
                   (let w6 = (if goal = left
                              then w5\<lparr>score_human := score_human w5 + Fin 1\<rparr>
                              else w5\<lparr>score_bot := score_bot w5 + Fin 1\<rparr>)
                    in (Some goal, resetKickoff w6))
               | None \<Rightarrow> (None, resolveCollisions w5 dt)))"

text \<open>
  \<^verbatim>\<open>tryKick\<close>: the result and the world after the call. Nothing in the body can throw, so
  the \<^verbatim>\<open>catch\<close> branch is not a branch of the model.
\<close>

definition tryKick :: "World \<Rightarrow> ref \<Rightarrow> bool \<times> World" where
  "tryKick w pr =
     (let player = players w pr in
      if \<not> isFinite (x (position player)) \<or> \<not> isFinite (y (position player)) \<or>
         \<not> isFinite (x (position (ball w))) \<or> \<not> isFinite (y (position (ball w)))
      then (False, w)
      else (let dist = vec2Distance (position player) (position (ball w));
                kickRadius = KICK_RADIUS
            in if isFinite dist \<and> dist \<le> kickRadius \<and> \<not> isFrozen (ball w)
               then (let inputMag = Math_sqrt (x (inputAcceleration player) * x (inputAcceleration player)
                                              + y (inputAcceleration player) * y (inputAcceleration player));
                         velocityMag = Math_sqrt (x (velocity player) * x (velocity player)
                                                 + y (velocity player) * y (velocity player));
                         direction =
                           (if inputMag > Fin 0.001 then vec2Normalize (inputAcceleration player)
                            else if velocityMag > Fin 1 then vec2Normalize (velocity player)
                            else (let forwardX = (if isHuman player then Fin 1 else Fin (- 1))
                                  in vec2Normalize \<lparr>x = forwardX, y = Fin 0\<rparr>))
                     in if isFinite (x direction) \<and> isFinite (y direction)
                        then (let dirMag = vec2Length direction
                              in if dirMag > Fin 0.1
                                 then (let kickForce = KICK_FORCE
                                       in (True, w\<lparr>ball := (ball w)\<lparr>velocity :=
                                                    \<lparr>x = x direction * kickForce,
                                                     y = y direction * kickForce\<rparr>\<rparr>\<rparr>))
                                 else (False, w))
                        else (False, w))
               else (False, w)))"


text \<open>
  \<^verbatim>\<open>tryPass\<close>, in three parts: the pass to the human player (\<open>None\<close> when the source
  falls through to the scan), the body of the scan over the teammates, and the method.
  The state of the scan is \<^verbatim>\<open>bestTeammate\<close> and \<^verbatim>\<open>bestScore\<close>.
\<close>

definition passToHuman :: "World \<Rightarrow> ref \<Rightarrow> ref \<Rightarrow> World option" where
  "passToHuman w pr hr =
     (let player = players w pr; humanPlayer = players w hr;
          distToHuman = vec2Distance (position player) (position humanPlayer);
          humanAhead = (x (position humanPlayer) > x (position player));
          humanInGoodPosition = (x (position humanPlayer) > ARENA_WIDTH / Fin 2 - Fin 100);
          humanOpen = (distToHuman > Fin 30 \<and> distToHuman < Fin 500)
      in if humanOpen \<and> (humanAhead \<or> humanInGoodPosition)
         then (let humanSpeed = Math_sqrt (x (velocity humanPlayer) * x (velocity humanPlayer)
                                          + y (velocity humanPlayer) * y (velocity humanPlayer));
                   passLead = Math_min (humanSpeed * Fin 0.45) (Fin 85);
                   humanDirection =
                     (if humanSpeed > Fin 5 then vec2Normalize (velocity humanPlayer)
                      else vec2Normalize (vec2Sub (position humanPlayer) (position player)))
               in if isFinite (x humanDirection)
                  then (let passTarget0 = vec2 (x (position humanPlayer) + x humanDirection * passLead)
                                              (y (position humanPlayer) + y humanDirection * passLead);
                            passTarget = \<lparr>x = Math_max (Fin 0) (Math_min ARENA_WIDTH (x passTarget0)),
                                          y = Math_max (Fin 80)
                                                (Math_min (ARENA_HEIGHT - Fin 80) (y passTarget0))\<rparr>;
                            passDirection = vec2Normalize (vec2Sub passTarget (position (ball w)))
                        in if isFinite (x passDirection) \<and> isFinite (y passDirection)
                           then (let passForce = KICK_FORCE * Fin 0.92
                                 in Some (w\<lparr>ball := (ball w)\<lparr>velocity :=
                                             \<lparr>x = x passDirection * passForce,
                                              y = y passDirection * passForce\<rparr>\<rparr>\<rparr>))
                           else None)
                  else None)
         else None)"

definition scanTeammate :: "World \<Rightarrow> ref \<Rightarrow> ref \<Rightarrow> ref option \<times> num \<Rightarrow> ref option \<times> num" where
  "scanTeammate w pr tr best =
     (let player = players w pr; teammate = players w tr;
          dist = vec2Distance (position player) (position teammate)
      in if \<not> isFinite dist \<or> dist < Fin 0.1 \<or> dist > Fin 500 then best
         else (let passAngle = Math_atan2 (y (position teammate) - y (position player))
                                          (x (position teammate) - x (position player))
               in if \<not> isFinite passAngle then best
                  else (let ballToTeammate = vec2Sub (position teammate) (position (ball w));
                            ballToTeammateNorm = vec2Normalize ballToTeammate;
                            passDirNorm = vec2Normalize \<lparr>x = Math_cos passAngle, y = Math_sin passAngle\<rparr>;
                            teammateAhead = vec2Dot ballToTeammateNorm passDirNorm
                        in if \<not> isFinite teammateAhead then best
                           else (let score = dist + (if teammateAhead < Fin 0 then Fin 1000 else Fin 0)
                                             - (teammateAhead * Fin 50)
                                 in if dist < Fin 400 \<and> dist > Fin 30 \<and> score < snd best \<and> isFinite score
                                    then (Some tr, score)
                                    else best))))"

text \<open>
  After the scan. When the lead direction is not finite, \<^verbatim>\<open>passTarget\<close> is the position
  object of the receiver itself, and the two clamping assignments write into it.
\<close>

definition passToBest :: "World \<Rightarrow> ref \<Rightarrow> ref \<Rightarrow> ref option \<times> World" where
  "passToBest w pr br =
     (let player = players w pr; bestTeammate = players w br
      in if isFinite (x (position bestTeammate)) \<and> isFinite (y (position bestTeammate))
         then (let targetSpeed = Math_sqrt (x (velocity bestTeammate) * x (velocity bestTeammate)
                                           + y (velocity bestTeammate) * y (velocity bestTeammate));
                   passLead = Math_min (targetSpeed * Fin 0.35) (Fin 70);
                   targetDirection =
                     (if targetSpeed > Fin 5 then vec2Normalize (velocity bestTeammate)
                      else vec2Normalize (vec2Sub (position bestTeammate) (position player)));
                   aliased = (\<not> isFinite (x targetDirection));
                   passTarget0 =
                     (if \<not> aliased
                      then vec2 (x (position bestTeammate) + x targetDirection * passLead)
                                (y (position bestTeammate) + y targetDirection * passLead)
                      else position bestTeammate);
                   passTarget = \<lparr>x = Math_max (Fin 0) (Math_min ARENA_WIDTH (x passTarget0)),
                                 y = Math_max (Fin 80) (Math_min (ARENA_HEIGHT - Fin 80) (y passTarget0))\<rparr>;
                   w1 = (if aliased
                         then w\<lparr>players := (players w)(br := bestTeammate\<lparr>position := passTarget\<rparr>)\<rparr>
                         else w);
                   passDirection = vec2Normalize (vec2Sub passTarget (position (ball w1)))
               in if isFinite (x passDirection) \<and> isFinite (y passDirection)
                  then (let passForce = KICK_FORCE * Fin 0.9
                        in (Some br, w1\<lparr>ball := (ball w1)\<lparr>velocity :=
                                           \<lparr>x = x passDirection * passForce,
                                            y = y passDirection * passForce\<rparr>\<rparr>\<rparr>))
                  else (None, w1))
         else (None, w))"

definition tryPass :: "World \<Rightarrow> ref \<Rightarrow> ref option \<times> World" where
  "tryPass w pr =
     (let player = players w pr in
      if \<not> isFinite (x (position player)) \<or> \<not> isFinite (y (position player)) \<or>
         \<not> isFinite (x (position (ball w))) \<or> \<not> isFinite (y (position (ball w)))
      then (None, w)
      else (let distToBall = vec2Distance (position player) (position (ball w))
            in if \<not> isFinite distToBall \<or> distToBall > KICK_RADIUS \<or> isFrozen (ball w)
               then (None, w)
               else (let isHumanTeam = (pr \<in> set (humanTeam w));
                         teammates =
                           filter (\<lambda>p. p \<noteq> pr \<and> isFinite (x (position (players w p)))
                                             \<and> isFinite (y (position (players w p))))
                             (if isHumanTeam then humanTeam w else botTeam w)
                     in if length teammates = 0 then (None, w)
                        else (case (if isHumanTeam \<and> humanTeam w \<noteq> [] \<and> humanTeam w ! 0 \<noteq> pr
                                    then passToHuman w pr (humanTeam w ! 0) else None) of
                                Some w1 \<Rightarrow> (Some (humanTeam w ! 0), w1)
                              | None \<Rightarrow>
                                  (case fst (fold (scanTeammate w pr) teammates (None, PInf)) of
                                     Some br \<Rightarrow> passToBest w pr br
                                   | None \<Rightarrow> (None, w))))))"

section \<open>Bot\<close>














section \<open>Vocabulary of the properties\<close>

text \<open>
  The definitions of this section are not code of the program: they name what the
  statements below talk about.
\<close>

text \<open>The real value of a finite number.\<close>

fun val :: "num \<Rightarrow> real" where
  "val (Fin r) = r"
| "val _ = 0"

definition finiteVec :: "Vec2 \<Rightarrow> bool" where
  "finiteVec v \<longleftrightarrow> isFinite (x v) \<and> isFinite (y v)"

text \<open>
  The specification's goal condition, in its words: the ball is fully past a goal line
  when the whole disc is beyond it.
\<close>

definition fullyPastLeftLine :: "'a Ball_scheme \<Rightarrow> bool" where
  "fullyPastLeftLine b \<longleftrightarrow> x (position b) + radius b < Fin 0"

definition fullyPastRightLine :: "'a Ball_scheme \<Rightarrow> bool" where
  "fullyPastRightLine b \<longleftrightarrow> x (position b) - radius b > ARENA_WIDTH"

text \<open>
  The penetration of two entities as \<^verbatim>\<open>detectCircleCollision\<close> computes it, also when it
  is not positive.
\<close>

definition recomputedPenetration :: "'a Entity_scheme \<Rightarrow> 'b Entity_scheme \<Rightarrow> num" where
  "recomputedPenetration a b =
     (let dx = x (position b) - x (position a);
          dy = y (position b) - y (position a)
      in (radius a + radius b) - Math_sqrt (dx * dx + dy * dy))"

text \<open>
  The shape the constructor gives the rosters, which no method changes: the roster sizes
  of the mode, the human player first in its roster, every player once.
\<close>

fun teamSize :: "GameMode \<Rightarrow> nat" where
  "teamSize OneVsOne = 1"
| "teamSize TwoVsTwo = 2"
| "teamSize ThreeVsThree = 3"

definition rostersOk :: "World \<Rightarrow> bool" where
  "rostersOk w \<longleftrightarrow>
     length (humanTeam w) = teamSize (gameMode w) \<and> length (botTeam w) = teamSize (gameMode w)
     \<and> humanPlayer w = humanTeam w ! 0 \<and> distinct (humanTeam w @ botTeam w)"

text \<open>The fields of the world that only the constructor and the caller write.\<close>

definition sameFrame :: "World \<Rightarrow> World \<Rightarrow> bool" where
  "sameFrame w w' \<longleftrightarrow>
     humanTeam w' = humanTeam w \<and> botTeam w' = botTeam w \<and> humanPlayer w' = humanPlayer w
     \<and> gameMode w' = gameMode w \<and> score_human w' = score_human w \<and> score_bot w' = score_bot w
     \<and> isPaused w' = isPaused w"

text \<open>The score after a goal of \<open>side\<close>, as \<^verbatim>\<open>World.update\<close> writes it.\<close>

definition scored :: "Side \<Rightarrow> World \<Rightarrow> World" where
  "scored side w = (if side = left then w\<lparr>score_human := score_human w + Fin 1\<rparr>
                    else w\<lparr>score_bot := score_bot w + Fin 1\<rparr>)"

definition atKickoff :: "Player \<Rightarrow> Vec2 \<Rightarrow> Player" where
  "atKickoff p pos = p\<lparr>position := pos, velocity := vec2 (Fin 0) (Fin 0)\<rparr>"

definition kickoffBall :: "Ball \<Rightarrow> Ball" where
  "kickoffBall b = b\<lparr>position := vec2 (Fin 450) (Fin 270), velocity := vec2Zero,
                     isFrozen := True, freezeTime := Fin 1\<rparr>"

section \<open>Scenarios\<close>

text \<open>Concrete entities and worlds at which the statements below are evaluated.\<close>

definition playerAt :: "real \<Rightarrow> real \<Rightarrow> bool \<Rightarrow> Player" where
  "playerAt px py human = Player_new (vec2 (Fin px) (Fin py)) human"

definition ballAt :: "real \<Rightarrow> real \<Rightarrow> Ball" where
  "ballAt px py = Ball_new (vec2 (Fin px) (Fin py))"



text \<open>Two discs of equal mass and restitution 1, closing head-on along the x axis.\<close>

definition elasticA :: Player where
  "elasticA = (playerAt 450 270 True)\<lparr>restitution := Fin 1, velocity := vec2 (Fin 50) (Fin 0)\<rparr>"

definition elasticB :: Player where
  "elasticB = (playerAt 481 270 False)\<lparr>restitution := Fin 1, velocity := vec2 (Fin (- 30)) (Fin 0)\<rparr>"

text \<open>The 1v1 world with the ball in the mouth of the left goal.\<close>

definition goalWorld :: World where
  "goalWorld = (World_new OneVsOne)\<lparr>ball := ballAt (- 5) 270\<rparr>"

text \<open>The 1v1 world with the human player 20px from the ball, and the world at kickoff.\<close>

definition kickWorld :: World where
  "kickWorld = (World_new OneVsOne)\<lparr>players := (players (World_new OneVsOne))(0 := playerAt 430 270 True)\<rparr>"

definition frozenWorld :: World where
  "frozenWorld = resetKickoff kickWorld"

text \<open>The same world with a position of the human player that is not a number.\<close>

definition nanWorld :: World where
  "nanWorld = kickWorld\<lparr>players := (players kickWorld)(0 := (players kickWorld 0)\<lparr>position := vec2 NaN (Fin 270)\<rparr>)\<rparr>"

text \<open>
  The 2v2 world with the ball 20px from the teammate (reference 1) and the human player
  100px ahead of the teammate.
\<close>

definition passWorld :: World where
  "passWorld = (World_new TwoVsTwo)\<lparr>players := (players (World_new TwoVsTwo))(0 := playerAt 400 190 True),
                                      ball := ballAt 320 190\<rparr>"

text \<open>Two players at the same place, and two players 20px apart.\<close>

definition coincidentA :: Player where "coincidentA = playerAt 450 270 True"
definition coincidentB :: Player where "coincidentB = playerAt 450 270 False"
definition nearA :: Player where "nearA = playerAt 450 270 True"
definition nearB :: Player where "nearB = playerAt 470 270 False"

text \<open>The collision of the two elastic discs: 31px apart, radii 18.\<close>

definition elasticCollision :: "(\<lparr>isHuman :: bool, inputAcceleration :: Vec2\<rparr>,
    \<lparr>isHuman :: bool, inputAcceleration :: Vec2\<rparr>) Collision" where
  "elasticCollision = \<lparr>entityA = elasticA, entityB = elasticB,
                        normal = \<lparr>x = Fin 1, y = Fin 0\<rparr>, penetration = Fin 5\<rparr>"

text \<open>
  The 1v1 world with the ball squeezed between the two players on the centre line, and the
  1v1 world with the ball 5px inside the left wall, above the goal mouth, overlapped by the
  human player.
\<close>

definition squeezeWorld :: World where
  "squeezeWorld = (World_new OneVsOne)\<lparr>players := (players (World_new OneVsOne))
      (0 := playerAt 400 270 True, 1 := playerAt 446.575 270 False),
      ball := ballAt 424.125 270\<rparr>"

definition wallWorld :: World where
  "wallWorld = (World_new OneVsOne)\<lparr>players := (players (World_new OneVsOne))
      (0 := playerAt 49.125 100 True, 1 := playerAt 650 100 False),
      ball := ballAt 25 100\<rparr>"


section \<open>Numbers: the finite case\<close>

lemma isFinite_iff: "isFinite n \<longleftrightarrow> (\<exists>r. n = Fin r)"
  by (cases n) auto

lemma Fin_minus [simp]: "Fin a - Fin b = Fin (a - b)"
  by (simp add: minus_num_def)

lemma num_less_not_le: "(b::num) < a \<Longrightarrow> \<not> a \<le> b"
  by (cases a; cases b) auto

lemma finiteVecE: "finiteVec v \<Longrightarrow> (\<And>a b. v = \<lparr>x = Fin a, y = Fin b\<rparr> \<Longrightarrow> P) \<Longrightarrow> P"
  by (cases v) (auto simp: finiteVec_def isFinite_iff)

lemma sum_squares_not_neg: "\<not> u * u + v * v < (0::real)"
  by (simp add: not_less)

lemma invMass_Fin: "\<exists>i. invMass e = Fin i \<and> 0 \<le> i"
  by (cases "mass e") (auto simp: invMass_def)

lemma dist_Fin:
  assumes "x p = Fin ax" "y p = Fin ay" "x q = Fin bx" "y q = Fin by'"
  shows "vec2Distance p q = Fin (sqrt ((ax - bx) * (ax - bx) + (ay - by') * (ay - by')))"
  using sum_squares_not_neg[of "ax - bx" "ay - by'"]
  by (simp add: vec2Distance_def vec2Length_def vec2Sub_def assms)

section \<open>The speed cap of the motion step\<close>




section \<open>Goal detection\<close>

text \<open>
  C3, as stated, fails: \<^verbatim>\<open>checkGoal\<close> credits a goal as soon as the near edge of the ball is
  over the line. A ball centred 5px inside the field, level with the goal mouth, is a
  goal for the right team although the ball is fully past neither goal line.
\<close>

theorem checkGoal_partly_past_counterexample:
  "checkGoal (ballAt 5 270) = Some right
   \<and> \<not> fullyPastLeftLine (ballAt 5 270) \<and> \<not> fullyPastRightLine (ballAt 5 270)"
  by (simp add: checkGoal_def ballAt_def Ball_new_def vec2_def fullyPastLeftLine_def
      fullyPastRightLine_def ARENA_HEIGHT_def GOAL_HEIGHT_def BALL_RADIUS_def ARENA_WIDTH_def)

text \<open>
  C3, amended. For a ball at a finite position \<open>(px, py)\<close> with radius \<open>r \<ge> 0\<close>:
  \<^verbatim>\<open>checkGoal\<close> credits the right team exactly when the left edge of the ball is over the
  left goal line (\<open>px - r < 0\<close>) with the centre in the goal-mouth span \<open>190 \<le> py \<le> 350\<close>,
  and the left team exactly when that is not the case and the right edge is over the right
  goal line (\<open>px + r > 900\<close>) with the centre in the span; a ball that is fully past a line
  and in the span is credited to the opposite side; away from both lines the result is
  none; and the ball at \<open>px = -1\<close> in the span is a goal of the right team.
\<close>

theorem checkGoal_edge_over_line:
  assumes "x (position b) = Fin px" "y (position b) = Fin py" "radius b = Fin r" "0 \<le> r"
  shows "(checkGoal b = Some right \<longleftrightarrow> px - r < 0 \<and> 190 \<le> py \<and> py \<le> 350)
       \<and> (checkGoal b = Some left \<longleftrightarrow> \<not> px - r < 0 \<and> 900 < px + r \<and> 190 \<le> py \<and> py \<le> 350)
       \<and> (fullyPastLeftLine b \<and> 190 \<le> py \<and> py \<le> 350 \<longrightarrow> checkGoal b = Some right)
       \<and> (fullyPastRightLine b \<and> 190 \<le> py \<and> py \<le> 350 \<longrightarrow> checkGoal b = Some left)
       \<and> (0 \<le> px - r \<and> px + r \<le> 900 \<longrightarrow> checkGoal b = None)
       \<and> (px = - 1 \<and> 190 \<le> py \<and> py \<le> 350 \<longrightarrow> checkGoal b = Some right)"
  using assms
  by (auto simp: checkGoal_def ARENA_HEIGHT_def GOAL_HEIGHT_def ARENA_WIDTH_def
      fullyPastLeftLine_def fullyPastRightLine_def)

theorem checkGoal_edge_over_line_witness:
  "x (position (ballAt (- 1) 270)) = Fin (- 1) \<and> y (position (ballAt (- 1) 270)) = Fin 270
   \<and> radius (ballAt (- 1) 270) = Fin 10 \<and> (0::real) \<le> 10
   \<and> (190::real) \<le> 270 \<and> (270::real) \<le> 350
   \<and> checkGoal (ballAt (- 1) 270) = Some right"
proof -
  have h: "x (position (ballAt (- 1) 270)) = Fin (- 1)" "y (position (ballAt (- 1) 270)) = Fin 270"
      "radius (ballAt (- 1) 270) = Fin 10" "(0::real) \<le> 10"
    by (simp_all add: ballAt_def Ball_new_def vec2_def BALL_RADIUS_def)
  from checkGoal_edge_over_line[OF h] h show ?thesis
    by simp
qed

section \<open>Circle collisions\<close>

lemma detect_Fin:
  assumes "x (position a) = Fin ax" "y (position a) = Fin ay"
    "x (position b) = Fin bx" "y (position b) = Fin by'"
    "radius a = Fin ra" "radius b = Fin rb"
  shows "detectCircleCollision a b =
     (if (ra + rb) * (ra + rb) \<le> (bx - ax) * (bx - ax) + (by' - ay) * (by' - ay) then None
      else Some \<lparr>entityA = a, entityB = b,
         normal = (if 0.0001 < sqrt ((bx - ax) * (bx - ax) + (by' - ay) * (by' - ay))
                   then \<lparr>x = Fin ((bx - ax) / sqrt ((bx - ax) * (bx - ax) + (by' - ay) * (by' - ay))),
                         y = Fin ((by' - ay) / sqrt ((bx - ax) * (bx - ax) + (by' - ay) * (by' - ay)))\<rparr>
                   else \<lparr>x = Fin 1, y = Fin 0\<rparr>),
         penetration = Fin (ra + rb - sqrt ((bx - ax) * (bx - ax) + (by' - ay) * (by' - ay)))\<rparr>)"
  using sum_squares_not_neg[of "bx - ax" "by' - ay"]
  by (simp add: detectCircleCollision_def assms Let_def vec2_def vec2Normalize_def
      vec2Length_def vec2Scale_def vec2Zero_def)

text \<open>
  C8, as stated, fails where the centres coincide: both orders report the default normal
  \<open>(1, 0)\<close>, which is not its own negation.
\<close>

theorem detect_coincident_counterexample:
  "detectCircleCollision coincidentA coincidentB
     = Some \<lparr>entityA = coincidentA, entityB = coincidentB,
             normal = \<lparr>x = Fin 1, y = Fin 0\<rparr>, penetration = Fin 36\<rparr>
   \<and> detectCircleCollision coincidentB coincidentA
     = Some \<lparr>entityA = coincidentB, entityB = coincidentA,
             normal = \<lparr>x = Fin 1, y = Fin 0\<rparr>, penetration = Fin 36\<rparr>
   \<and> \<lparr>x = Fin 1, y = Fin 0\<rparr> \<noteq> vec2Scale \<lparr>x = Fin 1, y = Fin 0\<rparr> (Fin (- 1))"
  by (simp add: detectCircleCollision_def coincidentA_def coincidentB_def playerAt_def
      Player_new_def vec2_def PLAYER_RADIUS_def Let_def vec2Scale_def)

text \<open>
  C8, amended. For two overlapping entities with finite positions and radii, the two
  orders of \<^verbatim>\<open>detectCircleCollision\<close> report the same penetration; where the distance of
  the centres is above 0.0001 the normal of one order is the negation of the other's, and
  where it is not, both orders report the normal \<open>(1, 0)\<close>.
\<close>

theorem detect_symmetric:
  assumes fin: "finiteVec (position a)" "finiteVec (position b)"
      "isFinite (radius a)" "isFinite (radius b)"
    and ov: "detectCircleCollision a b = Some c"
  shows "detectCircleCollision b a =
           Some \<lparr>entityA = b, entityB = a,
                 normal = (if vec2Distance (position a) (position b) > Fin 0.0001
                           then vec2Scale (normal c) (Fin (- 1)) else vec2 (Fin 1) (Fin 0)),
                 penetration = penetration c\<rparr>
       \<and> (\<not> vec2Distance (position a) (position b) > Fin 0.0001 \<longrightarrow> normal c = vec2 (Fin 1) (Fin 0))"
proof -
  from fin obtain ax ay bx by' ra rb where
    v: "x (position a) = Fin ax" "y (position a) = Fin ay"
       "x (position b) = Fin bx" "y (position b) = Fin by'"
       "radius a = Fin ra" "radius b = Fin rb"
    by (auto simp: finiteVec_def isFinite_iff)
  define d2 where "d2 = (bx - ax) * (bx - ax) + (by' - ay) * (by' - ay)"
  have sq: "(ax - bx) * (ax - bx) + (ay - by') * (ay - by') = d2"
    by (simp add: d2_def algebra_simps)
  have n1: "(ax - bx) / sqrt d2 = (bx - ax) / sqrt d2 * (- 1)"
    and n2: "(ay - by') / sqrt d2 = (by' - ay) / sqrt d2 * (- 1)"
    by (simp_all add: field_simps)
  have rr: "rb + ra = ra + rb" by simp
  note ab = detect_Fin[OF v, folded d2_def]
  note ba = detect_Fin[OF v(3,4,1,2,6,5), unfolded sq rr]
  note dd = dist_Fin[OF v(1,2,3,4), unfolded sq]
  show ?thesis
    using ov unfolding ab ba dd
    by (auto simp: vec2Scale_def vec2_def n1 n2 split: if_splits)
qed

theorem detect_symmetric_witness:
  "finiteVec (position nearA) \<and> finiteVec (position nearB)
   \<and> isFinite (radius nearA) \<and> isFinite (radius nearB)
   \<and> detectCircleCollision nearA nearB
       = Some \<lparr>entityA = nearA, entityB = nearB, normal = \<lparr>x = Fin 1, y = Fin 0\<rparr>, penetration = Fin 16\<rparr>
   \<and> detectCircleCollision nearB nearA
       = Some \<lparr>entityA = nearB, entityB = nearA, normal = \<lparr>x = Fin (- 1), y = Fin 0\<rparr>, penetration = Fin 16\<rparr>"
proof -
  have f: "finiteVec (position nearA)" "finiteVec (position nearB)"
      "isFinite (radius nearA)" "isFinite (radius nearB)"
    by (simp_all add: nearA_def nearB_def playerAt_def Player_new_def vec2_def finiteVec_def
          PLAYER_RADIUS_def)
  have d: "detectCircleCollision nearA nearB
       = Some \<lparr>entityA = nearA, entityB = nearB, normal = \<lparr>x = Fin 1, y = Fin 0\<rparr>, penetration = Fin 16\<rparr>"
    by (simp add: detectCircleCollision_def nearA_def nearB_def playerAt_def Player_new_def vec2_def
          PLAYER_RADIUS_def Let_def vec2Normalize_def vec2Length_def vec2Scale_def)
  have far: "vec2Distance (position nearA) (position nearB) > Fin 0.0001"
    by (simp add: vec2Distance_def vec2Length_def vec2Sub_def nearA_def nearB_def playerAt_def
          Player_new_def vec2_def)
  from detect_symmetric[OF f d] f d far show ?thesis
    by (simp add: vec2Scale_def)
qed

subsection \<open>Resolution of one pair\<close>

lemma unit_quot:
  fixes p q :: real
  assumes "0 < sqrt (p * p + q * q)"
  shows "(p / sqrt (p * p + q * q)) * (p / sqrt (p * p + q * q))
       + (q / sqrt (p * p + q * q)) * (q / sqrt (p * p + q * q)) = 1"
proof -
  define s where "s = sqrt (p * p + q * q)"
  have ss: "p * p + q * q = s * s"
    by (simp add: s_def)
  have "s \<noteq> 0" using assms unfolding s_def by linarith
  then have "(p * p + q * q) / (s * s) = 1" unfolding ss by simp
  then have "(p / s) * (p / s) + (q / s) * (q / s) = 1"
    by (simp add: add_divide_distrib)
  then show ?thesis by (simp add: s_def)
qed

text \<open>The normal of a detected collision of finite entities is a unit vector.\<close>

lemma detect_shape:
  assumes fin: "finiteVec (position a)" "finiteVec (position b)"
      "isFinite (radius a)" "isFinite (radius b)"
    and det: "detectCircleCollision a b = Some c"
  obtains nx ny p where
    "c = \<lparr>entityA = a, entityB = b, normal = \<lparr>x = Fin nx, y = Fin ny\<rparr>, penetration = Fin p\<rparr>"
    "nx * nx + ny * ny = 1"
proof -
  from fin obtain ax ay bx by' ra rb where
    v: "x (position a) = Fin ax" "y (position a) = Fin ay"
       "x (position b) = Fin bx" "y (position b) = Fin by'"
       "radius a = Fin ra" "radius b = Fin rb"
    by (auto simp: finiteVec_def isFinite_iff)
  define d2 where "d2 = (bx - ax) * (bx - ax) + (by' - ay) * (by' - ay)"
  note ab = detect_Fin[OF v, folded d2_def]
  from det have
     c: "c = \<lparr>entityA = a, entityB = b,
         normal = (if 0.0001 < sqrt d2
                   then \<lparr>x = Fin ((bx - ax) / sqrt d2), y = Fin ((by' - ay) / sqrt d2)\<rparr>
                   else \<lparr>x = Fin 1, y = Fin 0\<rparr>),
         penetration = Fin (ra + rb - sqrt d2)\<rparr>"
    unfolding ab by (auto split: if_splits)
  show ?thesis
  proof (cases "0.0001 < sqrt d2")
    case True
    have "(0::real) < 0.0001" by simp
    from this True have "0 < sqrt d2" by (rule less_trans)
    then have u: "((bx - ax) / sqrt d2) * ((bx - ax) / sqrt d2)
                + ((by' - ay) / sqrt d2) * ((by' - ay) / sqrt d2) = 1"
      unfolding d2_def by (rule unit_quot)
    show ?thesis
      by (rule that[of "(bx - ax) / sqrt d2" "(by' - ay) / sqrt d2" "ra + rb - sqrt d2"])
         (use True c u in simp_all)
  next
    case False
    show ?thesis
      by (rule that[of 1 0 "ra + rb - sqrt d2"]) (use False c in simp_all)
  qed
qed

text \<open>
  C7. Two overlapping entities of equal positive mass and restitution 1 whose relative
  velocity lies along the contact normal and is closing: \<^verbatim>\<open>resolveCircleCollision\<close>
  exchanges their velocities. Positions, radii and velocities are finite; the arithmetic
  is exact, so the exchange is exact.
\<close>

theorem resolve_head_on_exchange:
  assumes fin: "finiteVec (position a)" "finiteVec (position b)"
      "isFinite (radius a)" "isFinite (radius b)"
      "finiteVec (velocity a)" "finiteVec (velocity b)"
    and mass: "mass a = Fin m" "mass b = Fin m" "0 < m"
    and rest: "restitution a = Fin 1" "restitution b = Fin 1"
    and det: "detectCircleCollision a b = Some c"
    and headon: "vec2Sub (velocity b) (velocity a) = vec2Scale (normal c) (Fin k)" "k < 0"
  shows "velocity (fst (resolveCircleCollision c dt)) = velocity b
       \<and> velocity (snd (resolveCircleCollision c dt)) = velocity a"
proof -
  from detect_shape[OF fin(1-4) det] obtain nx ny p where
    c: "c = \<lparr>entityA = a, entityB = b, normal = \<lparr>x = Fin nx, y = Fin ny\<rparr>, penetration = Fin p\<rparr>"
    and u: "nx * nx + ny * ny = 1" by blast
  from fin(5) obtain vax vay where va: "velocity a = \<lparr>x = Fin vax, y = Fin vay\<rparr>"
    by (rule finiteVecE)
  from fin(6) obtain vbx vby where vb: "velocity b = \<lparr>x = Fin vbx, y = Fin vby\<rparr>"
    by (rule finiteVecE)
  from headon(1) have h: "vbx - vax = nx * k" "vby - vay = ny * k"
    by (simp_all add: c va vb vec2Sub_def vec2Scale_def)
  have van: "(vbx - vax) * nx + (vby - vay) * ny = k"
  proof -
    have "(vbx - vax) * nx + (vby - vay) * ny = k * (nx * nx + ny * ny)"
      unfolding h by (simp add: algebra_simps)
    then show ?thesis by (simp add: u)
  qed
  have m0: "m \<noteq> 0" using mass by simp
  show ?thesis
    using van \<open>k < 0\<close> m0
    apply (simp add: resolveCircleCollision_def c Let_def COLLISION_SLOP_def
        POSITION_CORRECTION_PERCENT_def va vb rest vec2Sub_def vec2Dot_def vec2Scale_def
        applyImpulse_def invMass_def mass split: prod.splits if_splits)
    apply (insert h)
    apply (intro conjI; linarith)
    done
qed

theorem resolve_head_on_exchange_witness:
  "finiteVec (position elasticA) \<and> finiteVec (position elasticB)
   \<and> isFinite (radius elasticA) \<and> isFinite (radius elasticB)
   \<and> finiteVec (velocity elasticA) \<and> finiteVec (velocity elasticB)
   \<and> mass elasticA = Fin 2.2 \<and> mass elasticB = Fin 2.2 \<and> (0::real) < 2.2
   \<and> restitution elasticA = Fin 1 \<and> restitution elasticB = Fin 1
   \<and> detectCircleCollision elasticA elasticB = Some elasticCollision
   \<and> vec2Sub (velocity elasticB) (velocity elasticA) = vec2Scale (normal elasticCollision) (Fin (- 80))
   \<and> (- 80 :: real) < 0
   \<and> velocity (fst (resolveCircleCollision elasticCollision (Fin (1 / 60)))) = vec2 (Fin (- 30)) (Fin 0)
   \<and> velocity (snd (resolveCircleCollision elasticCollision (Fin (1 / 60)))) = vec2 (Fin 50) (Fin 0)"
proof -
  have f: "finiteVec (position elasticA)" "finiteVec (position elasticB)"
      "isFinite (radius elasticA)" "isFinite (radius elasticB)"
      "finiteVec (velocity elasticA)" "finiteVec (velocity elasticB)"
    by (simp_all add: elasticA_def elasticB_def playerAt_def Player_new_def vec2_def finiteVec_def
          PLAYER_RADIUS_def)
  have m: "mass elasticA = Fin 2.2" "mass elasticB = Fin 2.2" "(0::real) < 2.2"
    by (simp_all add: elasticA_def elasticB_def playerAt_def Player_new_def PLAYER_MASS_def)
  have r: "restitution elasticA = Fin 1" "restitution elasticB = Fin 1"
    by (simp_all add: elasticA_def elasticB_def)
  have d: "detectCircleCollision elasticA elasticB = Some elasticCollision"
    by (simp add: detectCircleCollision_def elasticCollision_def elasticA_def elasticB_def
          playerAt_def Player_new_def vec2_def PLAYER_RADIUS_def Let_def vec2Normalize_def
          vec2Length_def vec2Scale_def)
  have h: "vec2Sub (velocity elasticB) (velocity elasticA)
             = vec2Scale (normal elasticCollision) (Fin (- 80))" "(- 80 :: real) < 0"
    by (simp_all add: elasticCollision_def elasticA_def elasticB_def vec2Sub_def vec2Scale_def vec2_def)
  have v: "velocity elasticA = vec2 (Fin 50) (Fin 0)" "velocity elasticB = vec2 (Fin (- 30)) (Fin 0)"
    by (simp_all add: elasticA_def elasticB_def)
  from resolve_head_on_exchange[OF f m r d h, of "Fin (1 / 60)"] f m r d h show ?thesis
    by (simp add: v)
qed

lemma resolve_frame:
  "radius (fst (resolveCircleCollision c dt)) = radius (entityA c)
   \<and> radius (snd (resolveCircleCollision c dt)) = radius (entityB c)"
  by (simp add: resolveCircleCollision_def Let_def applyImpulse_def split: prod.splits if_splits)

lemma resolve_positions:
  assumes c: "c = \<lparr>entityA = a, entityB = b, normal = \<lparr>x = Fin nx, y = Fin ny\<rparr>, penetration = Fin p\<rparr>"
    and pa: "position a = \<lparr>x = Fin ax, y = Fin ay\<rparr>" and pb: "position b = \<lparr>x = Fin bx, y = Fin by'\<rparr>"
    and im: "invMass a = Fin ia" "invMass b = Fin ib"
  shows "position (fst (resolveCircleCollision c dt)) =
           (if 0.1 < p \<and> 0 < ia + ib
            then \<lparr>x = Fin (ax - nx * (0.8 * p * (ia / (ia + ib)))),
                  y = Fin (ay - ny * (0.8 * p * (ia / (ia + ib))))\<rparr>
            else position a)"
    and "position (snd (resolveCircleCollision c dt)) =
           (if 0.1 < p \<and> 0 < ia + ib
            then \<lparr>x = Fin (bx + nx * (0.8 * p * (ib / (ia + ib)))),
                  y = Fin (by' + ny * (0.8 * p * (ib / (ia + ib))))\<rparr>
            else position b)"
  by (simp_all add: resolveCircleCollision_def c Let_def COLLISION_SLOP_def
        POSITION_CORRECTION_PERCENT_def im pa pb applyImpulse_def split: prod.splits if_splits)

text \<open>Moving two centres apart along their own direction adds to their distance.\<close>

lemma push_along:
  fixes p q t :: real
  assumes d: "0 < sqrt (p * p + q * q)" and t: "0 \<le> t"
  shows "sqrt ((p + p / sqrt (p * p + q * q) * t) * (p + p / sqrt (p * p + q * q) * t)
             + (q + q / sqrt (p * p + q * q) * t) * (q + q / sqrt (p * p + q * q) * t))
         = sqrt (p * p + q * q) + t"
proof -
  define s where "s = sqrt (p * p + q * q)"
  have s0: "0 < s" using d by (simp only: s_def)
  have ss: "p * p + q * q = s * s" by (simp add: s_def)
  have g: "(p * k) * (p * k) + (q * k) * (q * k) = (p * p + q * q) * (k * k)" for k :: real
    by (simp add: algebra_simps)
  have a: "p + p / s * t = p * (1 + t / s)" "q + q / s * t = q * (1 + t / s)"
    by (simp_all add: algebra_simps)
  have "(p + p / s * t) * (p + p / s * t) + (q + q / s * t) * (q + q / s * t)
        = (p * p + q * q) * ((1 + t / s) * (1 + t / s))"
    unfolding a by (rule g)
  also have "\<dots> = (s * (1 + t / s)) * (s * (1 + t / s))"
    unfolding ss by (simp add: algebra_simps)
  also have "s * (1 + t / s) = s + t"
    using s0 by (simp add: field_simps)
  finally have "(p + p / s * t) * (p + p / s * t) + (q + q / s * t) * (q + q / s * t)
                  = (s + t) * (s + t)" .
  moreover have "sqrt ((s + t) * (s + t)) = s + t"
    using s0 t by simp
  ultimately show ?thesis by (simp add: s_def)
qed

text \<open>Where the centres nearly coincide the push goes along the x axis.\<close>

lemma push_default:
  fixes p q t :: real
  assumes "0 \<le> t" "- (t / 2) \<le> p"
  shows "sqrt (p * p + q * q) \<le> sqrt ((p + t) * (p + t) + q * q)"
proof -
  have "(p + t) * (p + t) = p * p + t * (2 * p + t)"
    by (simp add: algebra_simps)
  moreover have "0 \<le> t * (2 * p + t)"
    using assms by (intro mult_nonneg_nonneg) (auto simp: field_simps)
  ultimately have "p * p + q * q \<le> (p + t) * (p + t) + q * q" by simp
  then show ?thesis by simp
qed

lemma overlap_after_real:
  fixes ax ay bx by' ra rb ia ib :: real
  assumes dx: "dx = bx - ax" and dy: "dy = by' - ay" and d: "d = sqrt (dx * dx + dy * dy)"
    and p: "p = ra + rb - d" and slop: "0.1 < p" and im: "0 < ia + ib"
    and n: "nx = (if 0.0001 < d then dx / d else 1)" "ny = (if 0.0001 < d then dy / d else 0)"
    and a': "ax' = ax - nx * (0.8 * p * (ia / (ia + ib)))" "ay' = ay - ny * (0.8 * p * (ia / (ia + ib)))"
    and b': "bx' = bx + nx * (0.8 * p * (ib / (ia + ib)))" "by'' = by' + ny * (0.8 * p * (ib / (ia + ib)))"
  shows "ra + rb - sqrt ((ax' - bx') * (ax' - bx') + (ay' - by'') * (ay' - by'')) \<le> p"
proof -
  define t where "t = 0.8 * p"
  have t0: "0 \<le> t" using slop by (simp add: t_def)
  have share: "ia / (ia + ib) + ib / (ia + ib) = 1"
    using im by (simp add: add_divide_distrib[symmetric])
  have "0.8 * p * (ia / (ia + ib)) + 0.8 * p * (ib / (ia + ib))
          = 0.8 * p * (ia / (ia + ib) + ib / (ia + ib))"
    by (rule distrib_left[symmetric])
  then have sum: "0.8 * p * (ia / (ia + ib)) + 0.8 * p * (ib / (ia + ib)) = t"
    unfolding share t_def by simp
  have ex: "ax' - bx' = - (dx + nx * t)"
    unfolding a' b' dx sum[symmetric] by (simp add: algebra_simps)
  have ey: "ay' - by'' = - (dy + ny * t)"
    unfolding a' b' dy sum[symmetric] by (simp add: algebra_simps)
  have sq: "(ax' - bx') * (ax' - bx') + (ay' - by'') * (ay' - by'')
          = (dx + nx * t) * (dx + nx * t) + (dy + ny * t) * (dy + ny * t)"
    unfolding ex ey by (simp only: minus_mult_minus)
  have "d \<le> sqrt ((dx + nx * t) * (dx + nx * t) + (dy + ny * t) * (dy + ny * t))"
  proof (cases "0.0001 < d")
    case True
    have "(0::real) < 0.0001" by simp
    from this True have d0: "0 < sqrt (dx * dx + dy * dy)" unfolding d by (rule less_trans)
    have "sqrt ((dx + dx / d * t) * (dx + dx / d * t) + (dy + dy / d * t) * (dy + dy / d * t)) = d + t"
      unfolding d by (rule push_along[OF d0 t0])
    then show ?thesis using True t0 by (simp add: n)
  next
    case False
    have "\<bar>dx\<bar> \<le> d"
      unfolding d using real_sqrt_ge_abs1[of dx dy] by (simp add: power2_eq_square)
    with False have lo: "- 0.0001 \<le> dx" by linarith
    have "- (t / 2) \<le> - 0.0001" using slop by (simp add: t_def)
    with lo have "- (t / 2) \<le> dx" by linarith
    from push_default[OF t0 this, of dy] show ?thesis
      using False by (simp add: n d)
  qed
  then show ?thesis
    unfolding sq p by simp
qed

lemma resolve_pair_penetration:
  assumes fin: "finiteVec (position a)" "finiteVec (position b)"
      "isFinite (radius a)" "isFinite (radius b)"
    and det: "detectCircleCollision a b = Some c"
  shows "recomputedPenetration (fst (resolveCircleCollision c dt)) (snd (resolveCircleCollision c dt))
           \<le> penetration c"
proof -
  from fin(1) obtain ax ay where pa: "position a = \<lparr>x = Fin ax, y = Fin ay\<rparr>" by (rule finiteVecE)
  from fin(2) obtain bx by' where pb: "position b = \<lparr>x = Fin bx, y = Fin by'\<rparr>" by (rule finiteVecE)
  from fin(3,4) obtain ra rb where r: "radius a = Fin ra" "radius b = Fin rb"
    by (auto simp: isFinite_iff)
  obtain ia where ia: "invMass a = Fin ia" "0 \<le> ia" using invMass_Fin[of a] by blast
  obtain ib where ib: "invMass b = Fin ib" "0 \<le> ib" using invMass_Fin[of b] by blast
  define dx where "dx = bx - ax"
  define dy where "dy = by' - ay"
  define d where "d = sqrt (dx * dx + dy * dy)"
  define p where "p = ra + rb - d"
  define nx where "nx = (if 0.0001 < d then dx / d else 1)"
  define ny where "ny = (if 0.0001 < d then dy / d else 0)"
  have "detectCircleCollision a b =
     (if (ra + rb) * (ra + rb) \<le> dx * dx + dy * dy then None
      else Some \<lparr>entityA = a, entityB = b,
         normal = (if 0.0001 < d then \<lparr>x = Fin (dx / d), y = Fin (dy / d)\<rparr>
                   else \<lparr>x = Fin 1, y = Fin 0\<rparr>),
         penetration = Fin p\<rparr>)"
    unfolding dx_def dy_def d_def p_def
    by (rule detect_Fin) (simp_all add: pa pb r)
  with det have c: "c = \<lparr>entityA = a, entityB = b, normal = \<lparr>x = Fin nx, y = Fin ny\<rparr>,
                         penetration = Fin p\<rparr>"
    by (auto simp: nx_def ny_def split: if_splits)
  note pos = resolve_positions[OF c pa pb ia(1) ib(1), of dt]
  have pc: "penetration c = Fin p" by (simp add: c)
  have rad: "radius (fst (resolveCircleCollision c dt)) = Fin ra"
      "radius (snd (resolveCircleCollision c dt)) = Fin rb"
    using resolve_frame[of c dt] r by (simp_all add: c)
  note nn = sum_squares_not_neg
  show ?thesis
  proof (cases "0.1 < p \<and> 0 < ia + ib")
    case True
    define ax' where "ax' = ax - nx * (0.8 * p * (ia / (ia + ib)))"
    define ay' where "ay' = ay - ny * (0.8 * p * (ia / (ia + ib)))"
    define bx' where "bx' = bx + nx * (0.8 * p * (ib / (ia + ib)))"
    define by'' where "by'' = by' + ny * (0.8 * p * (ib / (ia + ib)))"
    have "ra + rb - sqrt ((ax' - bx') * (ax' - bx') + (ay' - by'') * (ay' - by'')) \<le> p"
      by (rule overlap_after_real[OF dx_def dy_def d_def p_def _ _ nx_def ny_def
            ax'_def ay'_def bx'_def by''_def])
         (use True in auto)
    moreover have "(ax' - bx') * (ax' - bx') = (bx' - ax') * (bx' - ax')"
       "(ay' - by'') * (ay' - by'') = (by'' - ay') * (by'' - ay')"
      by (simp_all add: algebra_simps)
    ultimately have le: "ra + rb - sqrt ((bx' - ax') * (bx' - ax') + (by'' - ay') * (by'' - ay')) \<le> p"
      by simp
    have P: "position (fst (resolveCircleCollision c dt)) = \<lparr>x = Fin ax', y = Fin ay'\<rparr>"
        "position (snd (resolveCircleCollision c dt)) = \<lparr>x = Fin bx', y = Fin by''\<rparr>"
      unfolding pos ax'_def ay'_def bx'_def by''_def by (rule if_P[OF True])+
    show ?thesis
      using le nn by (simp add: recomputedPenetration_def Let_def P rad pc)
  next
    case False
    have P: "position (fst (resolveCircleCollision c dt)) = \<lparr>x = Fin ax, y = Fin ay\<rparr>"
        "position (snd (resolveCircleCollision c dt)) = \<lparr>x = Fin bx, y = Fin by'\<rparr>"
      unfolding pos pa[symmetric] pb[symmetric] by (rule if_not_P[OF False])+
    show ?thesis
      using nn by (simp add: recomputedPenetration_def Let_def P rad pc p_def d_def dx_def dy_def)
  qed
qed

section \<open>The world: a tick with a goal\<close>

lemma rostersOk_new: "rostersOk (World_new gm)"
  by (cases gm) (simp_all add: rostersOk_def World_new_def Let_def)

lemma list1: "length xs = Suc 0 \<Longrightarrow> \<exists>a. xs = [a]"
  by (cases xs) auto

lemma list2: "length xs = 2 \<Longrightarrow> \<exists>a b. xs = [a, b]"
  by (auto simp: numeral_2_eq_2 length_Suc_conv)

lemma list3: "length xs = 3 \<Longrightarrow> \<exists>a b c. xs = [a, b, c]"
  by (auto simp: numeral_3_eq_3 length_Suc_conv)

lemma setKickoff_fields [simp]:
  "humanTeam (setKickoff w r pos) = humanTeam w" "botTeam (setKickoff w r pos) = botTeam w"
  "humanPlayer (setKickoff w r pos) = humanPlayer w" "gameMode (setKickoff w r pos) = gameMode w"
  "score_human (setKickoff w r pos) = score_human w" "score_bot (setKickoff w r pos) = score_bot w"
  "isPaused (setKickoff w r pos) = isPaused w" "ball (setKickoff w r pos) = ball w"
  "kickoffFreezeTime (setKickoff w r pos) = kickoffFreezeTime w"
  "players (setKickoff w r pos) = (players w)(r := atKickoff (players w r) pos)"
  by (simp_all add: setKickoff_def atKickoff_def)

lemma resetHumanTeam_fields [simp]:
  "humanTeam (resetHumanTeam c w) = humanTeam w" "botTeam (resetHumanTeam c w) = botTeam w"
  "humanPlayer (resetHumanTeam c w) = humanPlayer w" "gameMode (resetHumanTeam c w) = gameMode w"
  "score_human (resetHumanTeam c w) = score_human w" "score_bot (resetHumanTeam c w) = score_bot w"
  "isPaused (resetHumanTeam c w) = isPaused w" "ball (resetHumanTeam c w) = ball w"
  "kickoffFreezeTime (resetHumanTeam c w) = kickoffFreezeTime w"
  by (simp_all add: resetHumanTeam_def Let_def)

lemma resetBotTeam_fields [simp]:
  "humanTeam (resetBotTeam c w) = humanTeam w" "botTeam (resetBotTeam c w) = botTeam w"
  "humanPlayer (resetBotTeam c w) = humanPlayer w" "gameMode (resetBotTeam c w) = gameMode w"
  "score_human (resetBotTeam c w) = score_human w" "score_bot (resetBotTeam c w) = score_bot w"
  "isPaused (resetBotTeam c w) = isPaused w" "ball (resetBotTeam c w) = ball w"
  "kickoffFreezeTime (resetBotTeam c w) = kickoffFreezeTime w"
  by (simp_all add: resetBotTeam_def Let_def)

lemma resetKickoff_players:
  "players (resetKickoff w) =
     players (resetBotTeam (Fin 270) (resetHumanTeam (Fin 270)
        (setKickoff w (humanPlayer w) (vec2 (Fin 250) (Fin 270)))))"
  by (simp add: resetKickoff_def Let_def ARENA_HEIGHT_def)

lemma resetHumanTeam_players:
  "gameMode w = OneVsOne \<Longrightarrow> players (resetHumanTeam c w) = players w"
  "gameMode w = TwoVsTwo \<Longrightarrow> humanTeam w = [h0, h1] \<Longrightarrow>
     players (resetHumanTeam (Fin 270) w)
       = (players w)(h1 := atKickoff (players w h1) (vec2 (Fin 300) (Fin 190)))"
  "gameMode w = ThreeVsThree \<Longrightarrow> humanTeam w = [h0, h1, h2] \<Longrightarrow>
     players (resetHumanTeam (Fin 270) w)
       = (players w)(h1 := atKickoff (players w h1) (vec2 (Fin 300) (Fin 170)),
                     h2 := atKickoff (((players w)(h1 := atKickoff (players w h1) (vec2 (Fin 300) (Fin 170)))) h2)
                             (vec2 (Fin 300) (Fin 370)))"
  by (simp_all add: resetHumanTeam_def Let_def)

lemma resetBotTeam_players:
  "gameMode w = OneVsOne \<Longrightarrow> botTeam w = [b0] \<Longrightarrow>
     players (resetBotTeam (Fin 270) w)
       = (players w)(b0 := atKickoff (players w b0) (vec2 (Fin 650) (Fin 270)))"
  "gameMode w = TwoVsTwo \<Longrightarrow> botTeam w = [b0, b1] \<Longrightarrow>
     players (resetBotTeam (Fin 270) w)
       = (players w)(b0 := atKickoff (players w b0) (vec2 (Fin 650) (Fin 270)),
                     b1 := atKickoff (((players w)(b0 := atKickoff (players w b0) (vec2 (Fin 650) (Fin 270)))) b1)
                             (vec2 (Fin 600) (Fin 190)))"
  "gameMode w = ThreeVsThree \<Longrightarrow> botTeam w = [b0, b1, b2] \<Longrightarrow>
     players (resetBotTeam (Fin 270) w)
       = (let s1 = (players w)(b0 := atKickoff (players w b0) (vec2 (Fin 650) (Fin 270)));
              s2 = s1(b1 := atKickoff (s1 b1) (vec2 (Fin 600) (Fin 170)))
          in s2(b2 := atKickoff (s2 b2) (vec2 (Fin 600) (Fin 370))))"
  by (simp_all add: resetBotTeam_def Let_def)

text \<open>The players the constructor allocates, roster by roster.\<close>

lemma World_new_layout:
  "map (\<lambda>r. position (players (World_new gm) r)) (humanTeam (World_new gm))
     = (case gm of OneVsOne \<Rightarrow> [vec2 (Fin 250) (Fin 270)]
        | TwoVsTwo \<Rightarrow> [vec2 (Fin 250) (Fin 270), vec2 (Fin 300) (Fin 190)]
        | ThreeVsThree \<Rightarrow> [vec2 (Fin 250) (Fin 270), vec2 (Fin 300) (Fin 170), vec2 (Fin 300) (Fin 370)])"
  "map (\<lambda>r. position (players (World_new gm) r)) (botTeam (World_new gm))
     = (case gm of OneVsOne \<Rightarrow> [vec2 (Fin 650) (Fin 270)]
        | TwoVsTwo \<Rightarrow> [vec2 (Fin 650) (Fin 270), vec2 (Fin 600) (Fin 190)]
        | ThreeVsThree \<Rightarrow> [vec2 (Fin 650) (Fin 270), vec2 (Fin 600) (Fin 170), vec2 (Fin 600) (Fin 370)])"
  by (cases gm; simp add: World_new_def Let_def Player_new_def vec2_def ARENA_HEIGHT_def)+

lemma atKickoff_fields [simp]:
  "position (atKickoff p pos) = pos" "velocity (atKickoff p pos) = vec2 (Fin 0) (Fin 0)"
  by (simp_all add: atKickoff_def)

lemma kickoff_1v1:
  assumes "gameMode w = OneVsOne" "humanTeam w = [h0]" "botTeam w = [b0]" "humanPlayer w = h0"
    "h0 \<noteq> b0"
  shows "map (\<lambda>r. position (players (resetKickoff w) r)) [h0] = [vec2 (Fin 250) (Fin 270)]"
    "map (\<lambda>r. position (players (resetKickoff w) r)) [b0] = [vec2 (Fin 650) (Fin 270)]"
    "\<forall>r \<in> set [h0, b0]. velocity (players (resetKickoff w) r) = vec2 (Fin 0) (Fin 0)"
  using assms
  by (simp_all add: resetKickoff_players resetHumanTeam_players(1) resetBotTeam_players(1)[of _ b0])

lemma kickoff_2v2:
  assumes "gameMode w = TwoVsTwo" "humanTeam w = [h0, h1]" "botTeam w = [b0, b1]"
    "humanPlayer w = h0"
    "h0 \<noteq> h1" "h0 \<noteq> b0" "h0 \<noteq> b1" "h1 \<noteq> b0" "h1 \<noteq> b1" "b0 \<noteq> b1"
  shows "map (\<lambda>r. position (players (resetKickoff w) r)) [h0, h1]
           = [vec2 (Fin 250) (Fin 270), vec2 (Fin 300) (Fin 190)]"
    "map (\<lambda>r. position (players (resetKickoff w) r)) [b0, b1]
           = [vec2 (Fin 650) (Fin 270), vec2 (Fin 600) (Fin 190)]"
    "\<forall>r \<in> set [h0, h1, b0, b1]. velocity (players (resetKickoff w) r) = vec2 (Fin 0) (Fin 0)"
  using assms assms(5-10)[THEN not_sym]
  by (simp_all add: resetKickoff_players resetHumanTeam_players(2)[of _ h0 h1]
        resetBotTeam_players(2)[of _ b0 b1])

lemma kickoff_3v3:
  assumes "gameMode w = ThreeVsThree" "humanTeam w = [h0, h1, h2]" "botTeam w = [b0, b1, b2]"
    "humanPlayer w = h0"
    "h0 \<noteq> h1" "h0 \<noteq> h2" "h0 \<noteq> b0" "h0 \<noteq> b1" "h0 \<noteq> b2"
    "h1 \<noteq> h2" "h1 \<noteq> b0" "h1 \<noteq> b1" "h1 \<noteq> b2" "h2 \<noteq> b0" "h2 \<noteq> b1" "h2 \<noteq> b2"
    "b0 \<noteq> b1" "b0 \<noteq> b2" "b1 \<noteq> b2"
  shows "map (\<lambda>r. position (players (resetKickoff w) r)) [h0, h1, h2]
           = [vec2 (Fin 250) (Fin 270), vec2 (Fin 300) (Fin 170), vec2 (Fin 300) (Fin 370)]"
    "map (\<lambda>r. position (players (resetKickoff w) r)) [b0, b1, b2]
           = [vec2 (Fin 650) (Fin 270), vec2 (Fin 600) (Fin 170), vec2 (Fin 600) (Fin 370)]"
    "\<forall>r \<in> set [h0, h1, h2, b0, b1, b2]. velocity (players (resetKickoff w) r) = vec2 (Fin 0) (Fin 0)"
  using assms assms(5-19)[THEN not_sym]
  by (simp_all add: resetKickoff_players resetHumanTeam_players(3)[of _ h0 h1 h2]
        resetBotTeam_players(3)[of _ b0 b1 b2] Let_def)

text \<open>The kickoff puts the player of every roster slot where the constructor put it.\<close>

lemma kickoff_layout:
  assumes ok: "rostersOk w"
  shows "map (\<lambda>r. position (players (resetKickoff w) r)) (humanTeam w)
           = map (\<lambda>r. position (players (World_new (gameMode w)) r)) (humanTeam (World_new (gameMode w)))"
    and "map (\<lambda>r. position (players (resetKickoff w) r)) (botTeam w)
           = map (\<lambda>r. position (players (World_new (gameMode w)) r)) (botTeam (World_new (gameMode w)))"
    and "\<forall>r \<in> set (humanTeam w @ botTeam w). velocity (players (resetKickoff w) r) = vec2 (Fin 0) (Fin 0)"
proof -
  have "map (\<lambda>r. position (players (resetKickoff w) r)) (humanTeam w)
           = map (\<lambda>r. position (players (World_new (gameMode w)) r)) (humanTeam (World_new (gameMode w)))
      \<and> map (\<lambda>r. position (players (resetKickoff w) r)) (botTeam w)
           = map (\<lambda>r. position (players (World_new (gameMode w)) r)) (botTeam (World_new (gameMode w)))
      \<and> (\<forall>r \<in> set (humanTeam w @ botTeam w). velocity (players (resetKickoff w) r) = vec2 (Fin 0) (Fin 0))"
  proof (cases "gameMode w")
    case OneVsOne
    with ok obtain h0 b0 where
      l: "humanTeam w = [h0]" "botTeam w = [b0]" "humanPlayer w = h0" "h0 \<noteq> b0"
      by (auto simp: rostersOk_def dest!: list1)
    from kickoff_1v1[OF OneVsOne l] show ?thesis
      unfolding World_new_layout l(1,2) OneVsOne by simp
  next
    case TwoVsTwo
    with ok obtain h0 h1 b0 b1 where
      l: "humanTeam w = [h0, h1]" "botTeam w = [b0, b1]" "humanPlayer w = h0"
      and ne: "h0 \<noteq> h1" "h0 \<noteq> b0" "h0 \<noteq> b1" "h1 \<noteq> b0" "h1 \<noteq> b1" "b0 \<noteq> b1"
      by (auto simp: rostersOk_def dest!: list2)
    from kickoff_2v2[OF TwoVsTwo l ne] show ?thesis
      unfolding World_new_layout l(1,2) TwoVsTwo by simp
  next
    case ThreeVsThree
    with ok obtain h0 h1 h2 b0 b1 b2 where
      l: "humanTeam w = [h0, h1, h2]" "botTeam w = [b0, b1, b2]" "humanPlayer w = h0"
      and ne: "h0 \<noteq> h1" "h0 \<noteq> h2" "h0 \<noteq> b0" "h0 \<noteq> b1" "h0 \<noteq> b2"
        "h1 \<noteq> h2" "h1 \<noteq> b0" "h1 \<noteq> b1" "h1 \<noteq> b2" "h2 \<noteq> b0" "h2 \<noteq> b1" "h2 \<noteq> b2"
        "b0 \<noteq> b1" "b0 \<noteq> b2" "b1 \<noteq> b2"
      by (auto simp: rostersOk_def dest!: list3)
    from kickoff_3v3[OF ThreeVsThree l ne] show ?thesis
      unfolding World_new_layout l(1,2) ThreeVsThree by simp
  qed
  then show "map (\<lambda>r. position (players (resetKickoff w) r)) (humanTeam w)
           = map (\<lambda>r. position (players (World_new (gameMode w)) r)) (humanTeam (World_new (gameMode w)))"
    and "map (\<lambda>r. position (players (resetKickoff w) r)) (botTeam w)
           = map (\<lambda>r. position (players (World_new (gameMode w)) r)) (botTeam (World_new (gameMode w)))"
    and "\<forall>r \<in> set (humanTeam w @ botTeam w). velocity (players (resetKickoff w) r) = vec2 (Fin 0) (Fin 0)"
    by blast+
qed

lemma sameFrame_refl: "sameFrame w w"
  by (simp add: sameFrame_def)

lemma sameFrame_trans: "sameFrame w w1 \<Longrightarrow> sameFrame w1 w2 \<Longrightarrow> sameFrame w w2"
  by (simp add: sameFrame_def)

lemma sameFrame_fold:
  assumes "\<And>a wa. sameFrame wa (f a wa)"
  shows "sameFrame w (fold f xs w)"
proof (induction xs arbitrary: w)
  case Nil
  show ?case by (simp add: sameFrame_refl)
next
  case (Cons a xs)
  have "sameFrame w (f a w)" by (rule assms)
  moreover have "sameFrame (f a w) (fold f xs (f a w))" by (rule Cons.IH)
  ultimately show ?case by (auto intro: sameFrame_trans)
qed

lemma sameFrame_updatePlayer: "sameFrame w (updatePlayer dt k r w)"
  by (simp add: sameFrame_def updatePlayer_def)

lemma sameFrame_updateEntities: "sameFrame w (updateEntities w dt k)"
proof -
  let ?w1 = "(if kickoffFreezeTime w > Fin 0
                then (let w0 = w\<lparr>kickoffFreezeTime := kickoffFreezeTime w - dt\<rparr>
                      in if kickoffFreezeTime w0 \<le> Fin 0 \<and> isFrozen (ball w0)
                         then w0\<lparr>ball := (ball w0)\<lparr>isFrozen := False\<rparr>\<rparr>
                         else w0)
                else w)"
  let ?w2 = "updatePlayer dt (Fin 1) (humanPlayer ?w1) ?w1"
  let ?w3 = "fold (\<lambda>player wa. if player \<noteq> humanPlayer wa
                                   then updatePlayer dt (Fin 1) player wa else wa)
                 (humanTeam ?w2) ?w2"
  let ?w4 = "fold (\<lambda>player wa. updatePlayer dt k player wa) (botTeam ?w3) ?w3"
  have 1: "sameFrame w ?w1" by (simp add: sameFrame_def Let_def)
  have 2: "sameFrame ?w1 ?w2" by (rule sameFrame_updatePlayer)
  have 3: "sameFrame ?w2 ?w3"
    by (rule sameFrame_fold) (simp add: sameFrame_updatePlayer sameFrame_refl)
  have 4: "sameFrame ?w3 ?w4"
    by (rule sameFrame_fold) (rule sameFrame_updatePlayer)
  have 5: "sameFrame ?w4 (?w4\<lparr>ball := Ball_update (ball ?w4) dt\<rparr>)"
    by (simp add: sameFrame_def)
  have "sameFrame w (?w4\<lparr>ball := Ball_update (ball ?w4) dt\<rparr>)"
    using 1 2 3 4 5 by (blast intro: sameFrame_trans)
  then show ?thesis
    by (simp add: updateEntities_def Let_def)
qed

lemma update_goal:
  assumes "\<not> isPaused w" "checkGoal (ball (updateEntities w dt k)) = Some side"
  shows "World_update w dt k = (Some side, resetKickoff (scored side (updateEntities w dt k)))"
  using assms by (simp add: World_update_def Let_def scored_def)

lemma resetKickoff_frame: "sameFrame w (resetKickoff w)"
  by (simp add: resetKickoff_def Let_def sameFrame_def)

lemma ball_new: "ball (World_new gm) = Ball_new (vec2 (ARENA_WIDTH / Fin 2) (ARENA_HEIGHT / Fin 2))"
  by (cases gm) (simp_all add: World_new_def Let_def)

lemma resetKickoff_ball:
  "ball (resetKickoff w) =
     (ball w)\<lparr>position := vec2 (ARENA_WIDTH / Fin 2) (ARENA_HEIGHT / Fin 2), velocity := vec2Zero,
              isFrozen := True, freezeTime := Fin 1\<rparr>
   \<and> kickoffFreezeTime (resetKickoff w) = Fin 1"
  by (simp add: resetKickoff_def Let_def freeze_def)

text \<open>
  C1. A tick of \<^verbatim>\<open>World.update\<close> on which \<^verbatim>\<open>checkGoal\<close> returns a side, in any mode, for a
  world with the rosters of its constructor: the call returns that side; the counter of
  the scoring team is one more and the other counter is as before; the positions of
  the players of each roster, slot by slot, are those the constructor gave the roster of
  the mode, and every player has velocity \<open>(0, 0)\<close>;
  the ball is at the centre with velocity \<open>(0, 0)\<close>, frozen, with freeze timer 1, and the
  kickoff timer is 1; and the world after the call is the kickoff of the scored world,
  with no collision pass after it.
\<close>

theorem update_goal_tick:
  assumes ok: "rostersOk w" and np: "\<not> isPaused w"
    and goal: "checkGoal (ball (updateEntities w dt k)) = Some side"
    and res: "World_update w dt k = (r, w')"
  shows "r = Some side
    \<and> score_human w' = (if side = left then score_human w + Fin 1 else score_human w)
    \<and> score_bot w' = (if side = right then score_bot w + Fin 1 else score_bot w)
    \<and> humanTeam w' = humanTeam w \<and> botTeam w' = botTeam w
    \<and> map (\<lambda>p. position (players w' p)) (humanTeam w)
        = map (\<lambda>p. position (players (World_new (gameMode w)) p)) (humanTeam (World_new (gameMode w)))
    \<and> map (\<lambda>p. position (players w' p)) (botTeam w)
        = map (\<lambda>p. position (players (World_new (gameMode w)) p)) (botTeam (World_new (gameMode w)))
    \<and> (\<forall>p \<in> set (humanTeam w @ botTeam w). velocity (players w' p) = vec2 (Fin 0) (Fin 0))
    \<and> position (ball w') = position (ball (World_new (gameMode w)))
    \<and> velocity (ball w') = vec2 (Fin 0) (Fin 0)
    \<and> isFrozen (ball w') \<and> freezeTime (ball w') = Fin 1 \<and> kickoffFreezeTime w' = Fin 1
    \<and> w' = resetKickoff (scored side (updateEntities w dt k))"
proof -
  define w5 where "w5 = scored side (updateEntities w dt k)"
  from update_goal[OF np goal] res have r: "r = Some side" and w': "w' = resetKickoff w5"
    by (simp_all add: w5_def)
  have f5: "humanTeam w5 = humanTeam w" "botTeam w5 = botTeam w" "humanPlayer w5 = humanPlayer w"
    "gameMode w5 = gameMode w"
    "score_human w5 = (if side = left then score_human w + Fin 1 else score_human w)"
    "score_bot w5 = (if side = right then score_bot w + Fin 1 else score_bot w)"
    using sameFrame_updateEntities[of w dt k]
    by (cases side; simp add: w5_def scored_def sameFrame_def)+
  have ok5: "rostersOk w5"
    using ok by (simp add: rostersOk_def f5)
  have fr: "sameFrame w5 w'"
    unfolding w' by (rule resetKickoff_frame)
  note lay = kickoff_layout[OF ok5, folded w', unfolded f5]
  have ball': "position (ball w') = position (ball (World_new (gameMode w)))"
      "velocity (ball w') = vec2 (Fin 0) (Fin 0)" "isFrozen (ball w')" "freezeTime (ball w') = Fin 1"
      "kickoffFreezeTime w' = Fin 1"
    using resetKickoff_ball[of w5, folded w']
    by (simp_all add: ball_new Ball_new_def vec2_def vec2Zero_def)
  from fr have sc: "score_human w' = score_human w5" "score_bot w' = score_bot w5"
      "humanTeam w' = humanTeam w5" "botTeam w' = botTeam w5"
    by (simp_all add: sameFrame_def)
  show ?thesis
    using lay by (simp only: r sc f5 ball' w'[unfolded w5_def, symmetric] simp_thms)
qed

lemma goalWorld_fields:
  "rostersOk goalWorld" "\<not> isPaused goalWorld" "gameMode goalWorld = OneVsOne"
  "humanTeam goalWorld = [0]" "botTeam goalWorld = [1]"
  "score_human goalWorld = Fin 0" "score_bot goalWorld = Fin 0"
  by (simp_all add: goalWorld_def rostersOk_def World_new_def Let_def)

lemma goalWorld_goal:
  "checkGoal (ball (updateEntities goalWorld (Fin (1 / 60)) (Fin 1.2))) = Some right"
  by (simp add: updateEntities_def goalWorld_def World_new_def Let_def updatePlayer_def
      Ball_update_def Entity_update_def ballAt_def Ball_new_def checkGoal_def vec2_def vec2Zero_def
      ARENA_WIDTH_def ARENA_HEIGHT_def GOAL_HEIGHT_def BALL_RADIUS_def BALL_DAMPING_def
      BALL_MAX_SPEED_def)

theorem update_goal_tick_witness:
  "rostersOk goalWorld \<and> \<not> isPaused goalWorld
   \<and> checkGoal (ball (updateEntities goalWorld (Fin (1 / 60)) (Fin 1.2))) = Some right
   \<and> fst (World_update goalWorld (Fin (1 / 60)) (Fin 1.2)) = Some right
   \<and> score_bot (snd (World_update goalWorld (Fin (1 / 60)) (Fin 1.2))) = Fin 1
   \<and> score_human (snd (World_update goalWorld (Fin (1 / 60)) (Fin 1.2))) = Fin 0
   \<and> position (players (snd (World_update goalWorld (Fin (1 / 60)) (Fin 1.2))) 0) = vec2 (Fin 250) (Fin 270)
   \<and> position (players (snd (World_update goalWorld (Fin (1 / 60)) (Fin 1.2))) 1) = vec2 (Fin 650) (Fin 270)
   \<and> velocity (players (snd (World_update goalWorld (Fin (1 / 60)) (Fin 1.2))) 0) = vec2 (Fin 0) (Fin 0)
   \<and> velocity (players (snd (World_update goalWorld (Fin (1 / 60)) (Fin 1.2))) 1) = vec2 (Fin 0) (Fin 0)
   \<and> position (ball (snd (World_update goalWorld (Fin (1 / 60)) (Fin 1.2)))) = vec2 (Fin 450) (Fin 270)
   \<and> velocity (ball (snd (World_update goalWorld (Fin (1 / 60)) (Fin 1.2)))) = vec2 (Fin 0) (Fin 0)
   \<and> isFrozen (ball (snd (World_update goalWorld (Fin (1 / 60)) (Fin 1.2))))
   \<and> freezeTime (ball (snd (World_update goalWorld (Fin (1 / 60)) (Fin 1.2)))) = Fin 1"
proof -
  have bn: "position (ball (World_new OneVsOne)) = vec2 (Fin 450) (Fin 270)"
    by (simp add: ball_new Ball_new_def vec2_def ARENA_WIDTH_def ARENA_HEIGHT_def)
  let ?w' = "snd (World_update goalWorld (Fin (1 / 60)) (Fin 1.2))"
  from update_goal_tick[OF goalWorld_fields(1,2) goalWorld_goal surjective_pairing]
  have t: "fst (World_update goalWorld (Fin (1 / 60)) (Fin 1.2)) = Some right"
    "score_human ?w' = (if right = left then score_human goalWorld + Fin 1 else score_human goalWorld)"
    "score_bot ?w' = (if right = right then score_bot goalWorld + Fin 1 else score_bot goalWorld)"
    "map (\<lambda>p. position (players ?w' p)) (humanTeam goalWorld)
        = map (\<lambda>p. position (players (World_new (gameMode goalWorld)) p))
            (humanTeam (World_new (gameMode goalWorld)))"
    "map (\<lambda>p. position (players ?w' p)) (botTeam goalWorld)
        = map (\<lambda>p. position (players (World_new (gameMode goalWorld)) p))
            (botTeam (World_new (gameMode goalWorld)))"
    "\<forall>p \<in> set (humanTeam goalWorld @ botTeam goalWorld). velocity (players ?w' p) = vec2 (Fin 0) (Fin 0)"
    "position (ball ?w') = position (ball (World_new (gameMode goalWorld)))"
    "velocity (ball ?w') = vec2 (Fin 0) (Fin 0)"
    "isFrozen (ball ?w')" "freezeTime (ball ?w') = Fin 1"
    by blast+
  from t goalWorld_fields goalWorld_goal show ?thesis
    by (simp add: World_new_layout bn)
qed

section \<open>The world: kick and pass\<close>

text \<open>
  C4. \<^verbatim>\<open>tryKick\<close> returns false, and leaves the world as it was, when the ball is frozen
  (whatever the distance), when the distance of the player to the ball is above the kick
  radius, and when a coordinate of the position of the player or of the ball is not
  finite; and whenever it returns false, for these or for any other reason, the world is
  as it was.
\<close>

lemma tryKick_frozen: "isFrozen (ball w) \<Longrightarrow> tryKick w pr = (False, w)"
  by (simp add: tryKick_def Let_def)

lemma tryKick_far:
  "vec2Distance (position (players w pr)) (position (ball w)) > KICK_RADIUS
     \<Longrightarrow> tryKick w pr = (False, w)"
  by (simp add: tryKick_def Let_def num_less_not_le)

lemma tryKick_not_finite:
  "\<not> isFinite (x (position (players w pr))) \<Longrightarrow> tryKick w pr = (False, w)"
  "\<not> isFinite (y (position (players w pr))) \<Longrightarrow> tryKick w pr = (False, w)"
  "\<not> isFinite (x (position (ball w))) \<Longrightarrow> tryKick w pr = (False, w)"
  "\<not> isFinite (y (position (ball w))) \<Longrightarrow> tryKick w pr = (False, w)"
  by (simp_all add: tryKick_def Let_def)

lemma tryKick_cases:
  "tryKick w pr = (False, w)
   \<or> (fst (tryKick w pr)
      \<and> snd (tryKick w pr) = w\<lparr>ball := (ball w)\<lparr>velocity := velocity (ball (snd (tryKick w pr)))\<rparr>\<rparr>)"
  by (simp add: tryKick_def Let_def)

lemma tryKick_false: "\<not> fst (tryKick w pr) \<Longrightarrow> snd (tryKick w pr) = w"
  using tryKick_cases[of w pr] by auto

theorem tryKick_guards:
  "(isFrozen (ball w)
      \<or> vec2Distance (position (players w pr)) (position (ball w)) > KICK_RADIUS
      \<or> \<not> isFinite (x (position (players w pr))) \<or> \<not> isFinite (y (position (players w pr)))
      \<or> \<not> isFinite (x (position (ball w))) \<or> \<not> isFinite (y (position (ball w)))
    \<longrightarrow> tryKick w pr = (False, w))
   \<and> (\<not> fst (tryKick w pr) \<longrightarrow> snd (tryKick w pr) = w)"
  using tryKick_frozen[of w pr] tryKick_far[of w pr] tryKick_not_finite[of w pr]
    tryKick_false[of w pr]
  by blast

text \<open>
  C10. When \<^verbatim>\<open>tryKick\<close> returns true, the world after the call is the world before it
  with another velocity of the ball: the store of players (positions, velocities,
  inputs), the rosters, both counters, the pause flag, the kickoff timer and the mode are
  the same, and so are the position, the frozen flag and the freeze timer of the ball.
\<close>

theorem tryKick_frame:
  assumes "tryKick w pr = (True, w')"
  shows "w' = w\<lparr>ball := (ball w)\<lparr>velocity := velocity (ball w')\<rparr>\<rparr>
       \<and> players w' = players w \<and> humanPlayer w' = humanPlayer w
       \<and> humanTeam w' = humanTeam w \<and> botTeam w' = botTeam w
       \<and> score_human w' = score_human w \<and> score_bot w' = score_bot w
       \<and> isPaused w' = isPaused w \<and> kickoffFreezeTime w' = kickoffFreezeTime w
       \<and> gameMode w' = gameMode w
       \<and> position (ball w') = position (ball w) \<and> isFrozen (ball w') = isFrozen (ball w)
       \<and> freezeTime (ball w') = freezeTime (ball w)"
proof -
  from tryKick_cases[of w pr] assms
  have e: "w' = w\<lparr>ball := (ball w)\<lparr>velocity := velocity (ball w')\<rparr>\<rparr>"
    by simp
  have "players w' = players w \<and> humanPlayer w' = humanPlayer w
       \<and> humanTeam w' = humanTeam w \<and> botTeam w' = botTeam w
       \<and> score_human w' = score_human w \<and> score_bot w' = score_bot w
       \<and> isPaused w' = isPaused w \<and> kickoffFreezeTime w' = kickoffFreezeTime w
       \<and> gameMode w' = gameMode w
       \<and> position (ball w') = position (ball w) \<and> isFrozen (ball w') = isFrozen (ball w)
       \<and> freezeTime (ball w') = freezeTime (ball w)"
    by (subst e, simp)+
  with e show ?thesis by blast
qed

lemma tryKick_kickWorld:
  "tryKick kickWorld 0
     = (True, kickWorld\<lparr>ball := (ball kickWorld)\<lparr>velocity := \<lparr>x = Fin 320, y = Fin 0\<rparr>\<rparr>\<rparr>)"
  by (simp add: tryKick_def kickWorld_def World_new_def playerAt_def Player_new_def Ball_new_def
       vec2_def vec2Zero_def ARENA_WIDTH_def ARENA_HEIGHT_def Let_def vec2Distance_def
       vec2Length_def vec2Sub_def KICK_RADIUS_def vec2Normalize_def vec2Scale_def KICK_FORCE_def)

lemma frozenWorld_ball: "isFrozen (ball frozenWorld)"
  by (simp add: frozenWorld_def resetKickoff_ball)

theorem tryKick_guards_witness:
  "isFrozen (ball frozenWorld) \<and> tryKick frozenWorld 0 = (False, frozenWorld)
   \<and> vec2Distance (position (players (World_new OneVsOne) 0)) (position (ball (World_new OneVsOne)))
        > KICK_RADIUS
   \<and> tryKick (World_new OneVsOne) 0 = (False, World_new OneVsOne)
   \<and> \<not> isFinite (x (position (players nanWorld 0)))
   \<and> tryKick nanWorld 0 = (False, nanWorld)
   \<and> \<not> fst (tryKick (World_new OneVsOne) 0)
   \<and> snd (tryKick (World_new OneVsOne) 0) = World_new OneVsOne"
proof -
  have far: "vec2Distance (position (players (World_new OneVsOne) 0))
               (position (ball (World_new OneVsOne))) > KICK_RADIUS"
    by (simp add: World_new_def Player_new_def Ball_new_def vec2_def Let_def vec2Distance_def
          vec2Length_def vec2Sub_def KICK_RADIUS_def ARENA_WIDTH_def ARENA_HEIGHT_def)
  have nan: "\<not> isFinite (x (position (players nanWorld 0)))"
    by (simp add: nanWorld_def vec2_def)
  from tryKick_guards[of frozenWorld 0] tryKick_guards[of "World_new OneVsOne" 0]
    tryKick_guards[of nanWorld 0] frozenWorld_ball far nan
  show ?thesis by simp
qed

theorem tryKick_frame_witness:
  "tryKick kickWorld 0
     = (True, kickWorld\<lparr>ball := (ball kickWorld)\<lparr>velocity := \<lparr>x = Fin 320, y = Fin 0\<rparr>\<rparr>\<rparr>)
   \<and> players (snd (tryKick kickWorld 0)) = players kickWorld
   \<and> score_human (snd (tryKick kickWorld 0)) = score_human kickWorld
   \<and> position (ball (snd (tryKick kickWorld 0))) = position (ball kickWorld)
   \<and> velocity (ball (snd (tryKick kickWorld 0))) = \<lparr>x = Fin 320, y = Fin 0\<rparr>"
  using tryKick_frame[OF tryKick_kickWorld] tryKick_kickWorld
  by simp

subsection \<open>\<^verbatim>\<open>tryPass\<close>\<close>

lemma scanTeammate_cases:
  "scanTeammate w pr tr best = best \<or>
   (fst (scanTeammate w pr tr best) = Some tr \<and>
    vec2Distance (position (players w pr)) (position (players w tr)) < Fin 400)"
  by (simp add: scanTeammate_def Let_def)

text \<open>The receiver the scan ends with is a teammate it looked at, less than 400px away.\<close>

lemma scan_inv:
  "fst (fold (scanTeammate w pr) ts best) = Some br \<Longrightarrow>
     fst best = Some br \<or>
     (br \<in> set ts \<and> vec2Distance (position (players w pr)) (position (players w br)) < Fin 400)"
proof (induction ts arbitrary: best)
  case Nil
  then show ?case by simp
next
  case (Cons t ts)
  from Cons.prems have "fst (fold (scanTeammate w pr) ts (scanTeammate w pr t best)) = Some br"
    by simp
  from Cons.IH[OF this] show ?case
    using scanTeammate_cases[of w pr t best] by auto
qed

lemma passToBest_result: "fst (passToBest w pr br) = Some r \<Longrightarrow> r = br"
  by (auto simp: passToBest_def Let_def split: if_splits)

lemma passToHuman_open:
  "passToHuman w pr hr = Some w1 \<Longrightarrow>
     vec2Distance (position (players w pr)) (position (players w hr)) < Fin 500"
  by (auto simp: passToHuman_def Let_def split: if_splits)

lemma tryPass_some:
  assumes "fst (tryPass w pr) = Some r"
  shows "r \<noteq> pr \<and> vec2Distance (position (players w pr)) (position (players w r)) < Fin 500"
proof -
  let ?ih = "pr \<in> set (humanTeam w)"
  let ?ts = "filter (\<lambda>p. p \<noteq> pr \<and> isFinite (x (position (players w p)))
                                             \<and> isFinite (y (position (players w p))))
                             (if ?ih then humanTeam w else botTeam w)"
  let ?ph = "(if ?ih \<and> humanTeam w \<noteq> [] \<and> humanTeam w ! 0 \<noteq> pr
                                    then passToHuman w pr (humanTeam w ! 0) else None)"
  let ?tail = "(case ?ph of
                                Some w1 \<Rightarrow> (Some (humanTeam w ! 0), w1)
                              | None \<Rightarrow>
                                  (case fst (fold (scanTeammate w pr) ?ts (None, PInf)) of
                                     Some br \<Rightarrow> passToBest w pr br
                                   | None \<Rightarrow> (None, w)))"
  have "tryPass w pr = (None, w) \<or> tryPass w pr = ?tail"
    by (simp add: tryPass_def Let_def)
  then have r: "fst ?tail = Some r"
  proof
    assume "tryPass w pr = (None, w)"
    with assms show ?thesis by simp
  next
    assume e: "tryPass w pr = ?tail"
    show ?thesis using assms unfolding e .
  qed
  show ?thesis
  proof (cases ?ph)
    case (Some w1)
    with r have "r = humanTeam w ! 0" by simp
    moreover from Some have "humanTeam w ! 0 \<noteq> pr" "passToHuman w pr (humanTeam w ! 0) = Some w1"
      by (auto split: if_splits)
    ultimately show ?thesis by (auto dest: passToHuman_open)
  next
    case None
    with r obtain br where b: "fst (fold (scanTeammate w pr) ?ts (None, PInf)) = Some br"
       and "fst (passToBest w pr br) = Some r"
      by (auto split: option.splits)
    then have "r = br" by (auto dest: passToBest_result)
    from scan_inv[OF b] have "br \<in> set ?ts"
      "vec2Distance (position (players w pr)) (position (players w br)) < Fin 400" by auto
    with \<open>r = br\<close> have "r \<noteq> pr"
      "vec2Distance (position (players w pr)) (position (players w r)) < Fin 400"
      by auto
    then show ?thesis
      by (cases "vec2Distance (position (players w pr)) (position (players w r))") auto
  qed
qed

text \<open>
  C5. \<^verbatim>\<open>tryPass\<close> never returns the passer as the receiver; a receiver it returns is not
  farther than 500px from the passer (at the time of the call); and with the ball frozen
  it returns no receiver, and leaves the world as it was.
\<close>

theorem tryPass_receiver:
  "fst (tryPass w pr) \<noteq> Some pr
   \<and> (fst (tryPass w pr) = Some r \<longrightarrow>
        \<not> vec2Distance (position (players w pr)) (position (players w r)) > Fin 500)
   \<and> (isFrozen (ball w) \<longrightarrow> tryPass w pr = (None, w))"
proof (intro conjI impI)
  show "fst (tryPass w pr) \<noteq> Some pr"
    using tryPass_some[of w pr pr] by auto
  show "\<not> vec2Distance (position (players w pr)) (position (players w r)) > Fin 500"
    if "fst (tryPass w pr) = Some r"
    using tryPass_some[OF that]
    by (cases "vec2Distance (position (players w pr)) (position (players w r))") auto
  show "tryPass w pr = (None, w)" if "isFrozen (ball w)"
    using that by (simp add: tryPass_def Let_def)
qed

lemma tryPass_passWorld: "fst (tryPass passWorld 1) = Some 0"
  by (simp add: tryPass_def passWorld_def World_new_def playerAt_def ballAt_def Player_new_def
       Ball_new_def vec2_def vec2Zero_def ARENA_WIDTH_def ARENA_HEIGHT_def Let_def vec2Distance_def
       vec2Length_def vec2Sub_def KICK_RADIUS_def vec2Normalize_def vec2Scale_def KICK_FORCE_def
       passToHuman_def)

theorem tryPass_receiver_witness:
  "fst (tryPass passWorld 1) = Some 0
   \<and> \<not> vec2Distance (position (players passWorld 1)) (position (players passWorld 0)) > Fin 500
   \<and> isFrozen (ball frozenWorld) \<and> tryPass frozenWorld 0 = (None, frozenWorld)"
  using tryPass_receiver[of passWorld 1 0] tryPass_receiver[of frozenWorld 0 0]
    tryPass_passWorld frozenWorld_ball
  by simp

section \<open>A collision pass and the overlap\<close>

lemmas constant_defs = ARENA_WIDTH_def ARENA_HEIGHT_def GOAL_HEIGHT_def WALL_THICKNESS_def
  COLLISION_SLOP_def POSITION_CORRECTION_PERCENT_def PLAYER_RADIUS_def PLAYER_MASS_def
  PLAYER_RESTITUTION_def PLAYER_MAX_SPEED_def PLAYER_DAMPING_def BALL_RADIUS_def BALL_MASS_def
  BALL_RESTITUTION_def BALL_MAX_SPEED_def BALL_DAMPING_def

text \<open>Detection for two entities level with each other: the distance is \<open>\<bar>dx\<bar>\<close>.\<close>

lemma detect_axis:
  assumes "isFinite (x (position a))" "isFinite (x (position b))"
    "isFinite (radius a)" "isFinite (radius b)"
    "isFinite (y (position a))" "y (position b) = y (position a)"
  shows "detectCircleCollision a b =
     (let dx = val (x (position b)) - val (x (position a));
          r = val (radius a) + val (radius b)
      in if r * r \<le> dx * dx then None
         else Some \<lparr>entityA = a, entityB = b,
                normal = (if 0.0001 < \<bar>dx\<bar> then \<lparr>x = Fin (dx / \<bar>dx\<bar>), y = Fin 0\<rparr>
                          else \<lparr>x = Fin 1, y = Fin 0\<rparr>),
                penetration = Fin (r - \<bar>dx\<bar>)\<rparr>)"
proof -
  from assms obtain ax bx ra rb c where
    v: "x (position a) = Fin ax" "y (position a) = Fin c" "x (position b) = Fin bx"
       "y (position b) = Fin c" "radius a = Fin ra" "radius b = Fin rb"
    by (auto simp: isFinite_iff)
  show ?thesis
    unfolding detect_Fin[OF v] by (simp add: v Let_def)
qed

lemma penetration_axis:
  assumes "isFinite (x (position a))" "isFinite (x (position b))"
    "isFinite (radius a)" "isFinite (radius b)"
    "isFinite (y (position a))" "y (position b) = y (position a)"
  shows "recomputedPenetration a b =
     Fin (val (radius a) + val (radius b) - \<bar>val (x (position b)) - val (x (position a))\<bar>)"
proof -
  from assms obtain ax bx ra rb c where
    v: "x (position a) = Fin ax" "y (position a) = Fin c" "x (position b) = Fin bx"
       "y (position b) = Fin c" "radius a = Fin ra" "radius b = Fin rb"
    by (auto simp: isFinite_iff)
  show ?thesis
    using sum_squares_not_neg[of "bx - ax" 0]
    by (simp add: recomputedPenetration_def v Let_def)
qed

lemma detect_penetration:
  "detectCircleCollision a b = Some c \<Longrightarrow> penetration c = recomputedPenetration a b"
  by (auto simp: detectCircleCollision_def recomputedPenetration_def Let_def split: if_splits)

text \<open>The two worlds after one call of \<^verbatim>\<open>resolveCollisions\<close>.\<close>

lemma squeeze_after:
  "resolveCollisions squeezeWorld (Fin (1 / 60)) =
     squeezeWorld\<lparr>players := (players squeezeWorld)
        (0 := (players squeezeWorld 0)\<lparr>position := \<lparr>x = Fin 399.1, y = Fin 270\<rparr>\<rparr>,
         1 := (players squeezeWorld 1)\<lparr>position := \<lparr>x = Fin 448.375, y = Fin 270\<rparr>\<rparr>),
       ball := (ball squeezeWorld)\<lparr>position := \<lparr>x = Fin 421.925, y = Fin 270\<rparr>\<rparr>\<rparr>"
  by (simp add: resolveCollisions_def getAllPlayers_def squeezeWorld_def World_new_def Let_def
       playerAt_def ballAt_def Player_new_def Ball_new_def vec2_def vec2Zero_def constant_defs
       detect_axis resolveCircleCollision_def invMass_def vec2Sub_def vec2Dot_def vec2Scale_def
       applyImpulse_def detectWallCollision_def)

lemma wall_after:
  "resolveCollisions wallWorld (Fin (1 / 60)) =
     wallWorld\<lparr>players := (players wallWorld)
        (0 := (players wallWorld 0)\<lparr>position := \<lparr>x = Fin 50.025, y = Fin 100\<rparr>\<rparr>),
       ball := (ball wallWorld)\<lparr>position := \<lparr>x = Fin 28.56, y = Fin 100\<rparr>\<rparr>\<rparr>"
  by (simp add: resolveCollisions_def getAllPlayers_def wallWorld_def World_new_def Let_def
       playerAt_def ballAt_def Player_new_def Ball_new_def vec2_def vec2Zero_def constant_defs
       detect_axis resolveCircleCollision_def invMass_def vec2Sub_def vec2Dot_def vec2Scale_def
       applyImpulse_def detectWallCollision_def resolveWallCollision_def)

text \<open>
  C6, as stated, fails for a pass of \<^verbatim>\<open>resolveCollisions\<close>. With the ball squeezed
  between two players, the pair of the human player and the ball overlaps by 3.875 before
  the pass and by 5.175 after it: the pair of the other player and the ball is resolved
  later and pushes the ball back. With the ball inside a wall, the same pair overlaps by
  3.875 before the pass and by 6.535 after it, the wall pass pushing the ball into the
  player, and no other pair overlaps before or after: the total overlap grows too.
\<close>

theorem resolveCollisions_overlap_counterexample:
  "recomputedPenetration (players squeezeWorld 0) (ball squeezeWorld) = Fin 3.875
   \<and> recomputedPenetration (players (resolveCollisions squeezeWorld (Fin (1 / 60))) 0)
        (ball (resolveCollisions squeezeWorld (Fin (1 / 60)))) = Fin 5.175
   \<and> recomputedPenetration (players wallWorld 0) (ball wallWorld) = Fin 3.875
   \<and> detectCircleCollision (players wallWorld 0) (players wallWorld 1) = None
   \<and> detectCircleCollision (players wallWorld 1) (ball wallWorld) = None
   \<and> recomputedPenetration (players (resolveCollisions wallWorld (Fin (1 / 60))) 0)
        (ball (resolveCollisions wallWorld (Fin (1 / 60)))) = Fin 6.535
   \<and> detectCircleCollision (players (resolveCollisions wallWorld (Fin (1 / 60))) 0)
        (players (resolveCollisions wallWorld (Fin (1 / 60))) 1) = None
   \<and> detectCircleCollision (players (resolveCollisions wallWorld (Fin (1 / 60))) 1)
        (ball (resolveCollisions wallWorld (Fin (1 / 60)))) = None"
  unfolding squeeze_after wall_after
  by (simp add: penetration_axis detect_axis squeezeWorld_def wallWorld_def World_new_def Let_def
       playerAt_def ballAt_def Player_new_def Ball_new_def vec2_def constant_defs)

text \<open>
  C6, amended. The resolution of one pair does not deepen the pair: for two entities with
  finite positions and radii that \<^verbatim>\<open>detectCircleCollision\<close> reports with penetration \<open>p\<close>,
  after \<^verbatim>\<open>resolveCircleCollision\<close> (slop 0.1, correction 0.8) the penetration of the
  pair, recomputed as the sum of the radii less the distance of the centres, is at most
  \<open>p\<close>, and so is the penetration a second detection of the pair reports.
\<close>

theorem resolve_pair_not_deeper:
  assumes fin: "finiteVec (position a)" "finiteVec (position b)"
      "isFinite (radius a)" "isFinite (radius b)"
    and det: "detectCircleCollision a b = Some c"
  shows "recomputedPenetration (fst (resolveCircleCollision c dt)) (snd (resolveCircleCollision c dt))
           \<le> penetration c
       \<and> (detectCircleCollision (fst (resolveCircleCollision c dt)) (snd (resolveCircleCollision c dt))
            = Some c' \<longrightarrow> penetration c' \<le> penetration c)"
  using resolve_pair_penetration[OF fin det, of dt]
  by (auto dest: detect_penetration)

lemma elastic_after:
  "position (fst (resolveCircleCollision elasticCollision (Fin (1 / 60)))) = \<lparr>x = Fin 448, y = Fin 270\<rparr>"
  "position (snd (resolveCircleCollision elasticCollision (Fin (1 / 60)))) = \<lparr>x = Fin 483, y = Fin 270\<rparr>"
  "radius (fst (resolveCircleCollision elasticCollision (Fin (1 / 60)))) = Fin 18"
  "radius (snd (resolveCircleCollision elasticCollision (Fin (1 / 60)))) = Fin 18"
  by (simp_all add: resolveCircleCollision_def elasticCollision_def elasticA_def elasticB_def
        playerAt_def Player_new_def vec2_def Let_def constant_defs invMass_def vec2Sub_def
        vec2Dot_def vec2Scale_def applyImpulse_def)

theorem resolve_pair_not_deeper_witness:
  "finiteVec (position elasticA) \<and> finiteVec (position elasticB)
   \<and> isFinite (radius elasticA) \<and> isFinite (radius elasticB)
   \<and> detectCircleCollision elasticA elasticB = Some elasticCollision
   \<and> penetration elasticCollision = Fin 5
   \<and> detectCircleCollision (fst (resolveCircleCollision elasticCollision (Fin (1 / 60))))
        (snd (resolveCircleCollision elasticCollision (Fin (1 / 60))))
      = Some \<lparr>entityA = fst (resolveCircleCollision elasticCollision (Fin (1 / 60))),
              entityB = snd (resolveCircleCollision elasticCollision (Fin (1 / 60))),
              normal = \<lparr>x = Fin 1, y = Fin 0\<rparr>, penetration = Fin 1\<rparr>
   \<and> recomputedPenetration (fst (resolveCircleCollision elasticCollision (Fin (1 / 60))))
        (snd (resolveCircleCollision elasticCollision (Fin (1 / 60)))) \<le> Fin 5"
proof -
  have f: "finiteVec (position elasticA)" "finiteVec (position elasticB)"
      "isFinite (radius elasticA)" "isFinite (radius elasticB)"
    by (simp_all add: elasticA_def elasticB_def playerAt_def Player_new_def vec2_def finiteVec_def
          PLAYER_RADIUS_def)
  have d: "detectCircleCollision elasticA elasticB = Some elasticCollision"
    by (simp add: detectCircleCollision_def elasticCollision_def elasticA_def elasticB_def
          playerAt_def Player_new_def vec2_def PLAYER_RADIUS_def Let_def vec2Normalize_def
          vec2Length_def vec2Scale_def)
  have p: "penetration elasticCollision = Fin 5"
    by (simp add: elasticCollision_def)
  have d': "detectCircleCollision (fst (resolveCircleCollision elasticCollision (Fin (1 / 60))))
        (snd (resolveCircleCollision elasticCollision (Fin (1 / 60))))
      = Some \<lparr>entityA = fst (resolveCircleCollision elasticCollision (Fin (1 / 60))),
              entityB = snd (resolveCircleCollision elasticCollision (Fin (1 / 60))),
              normal = \<lparr>x = Fin 1, y = Fin 0\<rparr>, penetration = Fin 1\<rparr>"
    by (simp add: detect_axis elastic_after)
  from resolve_pair_not_deeper[OF f d, of "Fin (1 / 60)"] f d p d' show ?thesis
    by simp
qed

section \<open>The rosters are those of the constructor\<close>

text \<open>
  The shape of the rosters that the statements about a goal tick assume holds of every
  world the constructor builds (\<open>rostersOk_new\<close>) and is kept by every method of the
  world.
\<close>

lemma sameFrame_rostersOk: "sameFrame w w' \<Longrightarrow> rostersOk w \<Longrightarrow> rostersOk w'"
  by (simp add: sameFrame_def rostersOk_def)

lemma sameFrame_collidePair: "sameFrame w (collidePair dt e1 e2 w)"
  by (cases e1; cases e2) (simp_all add: sameFrame_def split: option.splits prod.splits)

lemma sameFrame_resolvePairs: "sameFrame w (resolvePairs dt es w)"
proof (induction es arbitrary: w)
  case Nil
  show ?case by (simp add: sameFrame_refl)
next
  case (Cons e es)
  have "sameFrame w (fold (collidePair dt e) es w)"
    by (rule sameFrame_fold) (rule sameFrame_collidePair)
  moreover have "sameFrame (fold (collidePair dt e) es w)
                   (resolvePairs dt es (fold (collidePair dt e) es w))"
    by (rule Cons.IH)
  ultimately show ?case by (auto intro: sameFrame_trans)
qed

lemma sameFrame_collideWall: "sameFrame w (collideWall dt e w)"
  by (cases e) (simp_all add: sameFrame_def split: option.splits)

lemma sameFrame_resolveCollisions: "sameFrame w (resolveCollisions w dt)"
proof -
  let ?es = "map PlayerRef (getAllPlayers w) @ [BallRef]"
  have "sameFrame w (resolvePairs dt ?es w)"
    by (rule sameFrame_resolvePairs)
  moreover have "sameFrame (resolvePairs dt ?es w) (fold (collideWall dt) ?es (resolvePairs dt ?es w))"
    by (rule sameFrame_fold) (rule sameFrame_collideWall)
  ultimately show ?thesis
    by (auto simp: resolveCollisions_def Let_def intro: sameFrame_trans)
qed

lemma sameFrame_passToHuman: "passToHuman w pr hr = Some w1 \<Longrightarrow> sameFrame w w1"
  by (auto simp: passToHuman_def Let_def sameFrame_def split: if_splits)

lemma sameFrame_passToBest: "sameFrame w (snd (passToBest w pr br))"
  by (simp add: passToBest_def Let_def sameFrame_def)

lemma sameFrame_tryPass: "sameFrame w (snd (tryPass w pr))"
proof -
  let ?ih = "pr \<in> set (humanTeam w)"
  let ?ts = "filter (\<lambda>p. p \<noteq> pr \<and> isFinite (x (position (players w p)))
                                             \<and> isFinite (y (position (players w p))))
                             (if ?ih then humanTeam w else botTeam w)"
  let ?ph = "(if ?ih \<and> humanTeam w \<noteq> [] \<and> humanTeam w ! 0 \<noteq> pr
                                    then passToHuman w pr (humanTeam w ! 0) else None)"
  let ?tail = "(case ?ph of
                                Some w1 \<Rightarrow> (Some (humanTeam w ! 0), w1)
                              | None \<Rightarrow>
                                  (case fst (fold (scanTeammate w pr) ?ts (None, PInf)) of
                                     Some br \<Rightarrow> passToBest w pr br
                                   | None \<Rightarrow> (None, w)))"
  have "tryPass w pr = (None, w) \<or> tryPass w pr = ?tail"
    by (simp add: tryPass_def Let_def)
  moreover have "sameFrame w (snd ?tail)"
  proof (cases ?ph)
    case (Some w1)
    then have "passToHuman w pr (humanTeam w ! 0) = Some w1" by (auto split: if_splits)
    then have "sameFrame w w1" by (rule sameFrame_passToHuman)
    with Some show ?thesis by simp
  next
    case None
    then show ?thesis
      by (auto simp: sameFrame_refl sameFrame_passToBest split: option.splits)
  qed
  ultimately show ?thesis
    by (auto simp: sameFrame_refl)
qed

lemma sameFrame_tryKick: "sameFrame w (snd (tryKick w pr))"
proof -
  from tryKick_cases[of w pr] show ?thesis
  proof
    assume "tryKick w pr = (False, w)"
    then show ?thesis by (simp add: sameFrame_refl)
  next
    assume "fst (tryKick w pr) \<and>
      snd (tryKick w pr) = w\<lparr>ball := (ball w)\<lparr>velocity := velocity (ball (snd (tryKick w pr)))\<rparr>\<rparr>"
    then have e: "snd (tryKick w pr)
                    = w\<lparr>ball := (ball w)\<lparr>velocity := velocity (ball (snd (tryKick w pr)))\<rparr>\<rparr>" ..
    show ?thesis by (subst e) (simp add: sameFrame_def)
  qed
qed

lemma rostersOk_scored: "rostersOk (scored side w) = rostersOk w"
  by (simp add: scored_def rostersOk_def)

lemma rostersOk_kept:
  assumes ok: "rostersOk w"
  shows "rostersOk (snd (World_update w dt k))" "rostersOk (snd (tryKick w pr))"
    "rostersOk (snd (tryPass w pr))" "rostersOk (resetKickoff w)" "rostersOk (reset w)"
proof -
  have u: "rostersOk (updateEntities w dt k)"
    using sameFrame_updateEntities ok by (rule sameFrame_rostersOk)
  show "rostersOk (snd (World_update w dt k))"
  proof (cases "isPaused w")
    case True
    with ok show ?thesis by (simp add: World_update_def)
  next
    case False
    show ?thesis
    proof (cases "checkGoal (ball (updateEntities w dt k))")
      case None
      with False have "snd (World_update w dt k) = resolveCollisions (updateEntities w dt k) dt"
        by (simp add: World_update_def Let_def)
      with u show ?thesis
        by (simp add: sameFrame_rostersOk[OF sameFrame_resolveCollisions])
    next
      case (Some side)
      from update_goal[OF False Some] u show ?thesis
        by (simp add: sameFrame_rostersOk[OF resetKickoff_frame] rostersOk_scored)
    qed
  qed
  show "rostersOk (snd (tryKick w pr))"
    using sameFrame_tryKick ok by (rule sameFrame_rostersOk)
  show "rostersOk (snd (tryPass w pr))"
    using sameFrame_tryPass ok by (rule sameFrame_rostersOk)
  show "rostersOk (resetKickoff w)"
    using resetKickoff_frame ok by (rule sameFrame_rostersOk)
  have "rostersOk (w\<lparr>score_human := Fin 0, score_bot := Fin 0\<rparr>)"
    using ok by (simp add: rostersOk_def)
  then show "rostersOk (reset w)"
    unfolding reset_def by (rule sameFrame_rostersOk[OF resetKickoff_frame])
qed

section \<open>The steering vector of the bot\<close>










end
